theory Spec2Isabelle
  imports Complex_Main
begin

section \<open>Values shared by the services\<close>

text \<open>
  JavaScript numbers are modelled as reals (prices, ratios, confidences) and as integers
  (milliseconds since the epoch, as returned by \<open>Date.getTime()\<close>). An absent
  (\<open>undefined\<close>) or empty string is the empty list: both are falsy in every test the
  source makes. The \<open>Date\<close> constructor belongs to the runtime; it is the parameter
  \<open>getTime\<close> (string to epoch milliseconds) of the functions that parse a timestamp.
\<close>

datatype error = TypeError | RangeError | StoreError | OracleError | DuplicateKey

definition bind_res :: "error + 'a \<Rightarrow> ('a \<Rightarrow> error + 'b) \<Rightarrow> error + 'b" where
  "bind_res m f = (case m of Inl e \<Rightarrow> Inl e | Inr x \<Rightarrow> f x)"

definition truthy :: "string \<Rightarrow> bool" where
  "truthy s = (s \<noteq> [])"

definition lower_char :: "char \<Rightarrow> char" where
  "lower_char c =
     (let n = (of_char c :: nat)
      in if 65 \<le> n \<and> n \<le> 90 then char_of (n + 32) else c)"

definition toLowerCase :: "string \<Rightarrow> string" where
  "toLowerCase s = map lower_char s"

subsection \<open>config.js: the settings read by the modelled code, with their defaults\<close>

record config =
  appName :: string
  ttl_currentPrice :: nat
  ttl_historicalPrice :: nat
  ttl_interpolatedPrice :: nat
  alchemy_maxRetries :: nat
  alchemy_retryDelay :: nat
  networks_supported :: "string list"
  archive_thresholdDays :: int
  archive_compressionEnabled :: bool
  maxDataPoints :: nat
  maxTimeGapHours :: int
  minConfidenceThreshold :: real
  extrapolationMaxChangePercent :: int

definition default_config :: config where
  "default_config =
     \<lparr> appName = ''token-price-storage-system'',
       ttl_currentPrice = 300,
       ttl_historicalPrice = 3600,
       ttl_interpolatedPrice = 1800,
       alchemy_maxRetries = 3,
       alchemy_retryDelay = 1000,
       networks_supported = [''ethereum'', ''polygon'', ''arbitrum'', ''optimism''],
       archive_thresholdDays = 90,
       archive_compressionEnabled = True,
       maxDataPoints = 20,
       maxTimeGapHours = 24,
       minConfidenceThreshold = 3 / 10,
       extrapolationMaxChangePercent = 50 \<rparr>"

subsection \<open>Price documents\<close>

record price_info =
  usd :: real
  lastUpdated :: string

datatype interp_method = Linear | Extrapolation | NoMethod

text \<open>
  A price document as the services pass it around and as the prices collection holds it.
  \<open>price = None\<close> is a document without its \<open>price\<close> object (reading \<open>price.usd\<close>
  then throws a TypeError). The storage fields are \<open>None\<close> until the operation that
  sets them has run.
\<close>

record price_doc =
  doc_id :: string
  token :: string
  network :: string
  timestamp :: string
  price :: "price_info option"
  source :: string
  interpolated :: bool
  interpolationMethod :: "interp_method option"
  confidence :: "real option"
  storedAt :: "int option"
  createdAt :: "int option"
  archivedAt :: "int option"
  compressed :: "bool option"

definition usd_of :: "price_doc \<Rightarrow> error + real" where
  "usd_of p = (case price p of None \<Rightarrow> Inl TypeError | Some pr \<Rightarrow> Inr (usd pr))"

section \<open>interpolation-engine.js\<close>

text \<open>The object \<open>{ price, method, points }\<close> returned by the two synthesis routines;
  \<open>res_usd = None\<close> is \<open>price: null\<close>.\<close>

record synth =
  res_usd :: "real option"
  res_method :: interp_method
  res_points :: "price_doc list"

definition linearInterpolation ::
  "(string \<Rightarrow> int) \<Rightarrow> price_doc \<Rightarrow> price_doc \<Rightarrow> int \<Rightarrow> error + synth" where
  "linearInterpolation getTime beforePrice afterPrice targetDate =
     (let beforeDate = getTime (timestamp beforePrice);
          afterDate = getTime (timestamp afterPrice);
          totalTimeDiff = afterDate - beforeDate;
          targetTimeDiff = targetDate - beforeDate;
          ratio = (if totalTimeDiff = 0 then 0
                   else real_of_int targetTimeDiff / real_of_int totalTimeDiff)
      in bind_res (usd_of beforePrice) (\<lambda>beforeUsd.
         bind_res (usd_of afterPrice) (\<lambda>afterUsd.
           Inr \<lparr> res_usd = Some (beforeUsd + (afterUsd - beforeUsd) * ratio),
                 res_method = Linear,
                 res_points = [beforePrice, afterPrice] \<rparr>)))"

definition extrapolatePrice ::
  "config \<Rightarrow> (string \<Rightarrow> int) \<Rightarrow> price_doc list \<Rightarrow> int \<Rightarrow> error + synth" where
  "extrapolatePrice cfg getTime prices targetDate =
     (if length prices < 2 then Inr \<lparr> res_usd = None, res_method = NoMethod, res_points = [] \<rparr>
      else
        let sortedPrices = sort_key (\<lambda>p. getTime (timestamp p)) prices;
            n = length sortedPrices;
            p1 = (if targetDate < getTime (timestamp (sortedPrices ! 0))
                  then sortedPrices ! 0 else sortedPrices ! (n - 2));
            p2 = (if targetDate < getTime (timestamp (sortedPrices ! 0))
                  then sortedPrices ! 1 else sortedPrices ! (n - 1));
            date1 = getTime (timestamp p1);
            date2 = getTime (timestamp p2);
            timeDiff = date2 - date1
        in bind_res (usd_of p2) (\<lambda>usd2.
           bind_res (usd_of p1) (\<lambda>usd1.
             let priceDiff = usd2 - usd1
             in if timeDiff = 0
                then Inr \<lparr> res_usd = None, res_method = NoMethod, res_points = [] \<rparr>
                else
                  let priceChangeRate = priceDiff / real_of_int timeDiff;
                      targetTimeDiff = targetDate - date2;
                      extrapolatedUsd = usd2 + priceChangeRate * real_of_int targetTimeDiff;
                      maxChange =
                        \<bar>usd2 * (real_of_int (extrapolationMaxChangePercent cfg) / 100)\<bar>;
                      bounded = max (usd2 - maxChange) (min (usd2 + maxChange) extrapolatedUsd);
                      floored = max (1 / 10000) bounded
                  in Inr \<lparr> res_usd = Some floored,
                           res_method = Extrapolation,
                           res_points = [p1, p2] \<rparr>)))"

definition volatilityConfidence :: "real \<Rightarrow> real \<Rightarrow> real" where
  "volatilityConfidence usdA usdB =
     (let priceDiff = \<bar>usdB - usdA\<bar>;
          avgPrice = (usdB + usdA) / 2;
          volatility = (if avgPrice = 0 then 1 else priceDiff / avgPrice)
      in max 0 (1 - volatility))"

definition calculateConfidence ::
  "(string \<Rightarrow> int) \<Rightarrow> price_doc list \<Rightarrow> int \<Rightarrow> interp_method \<Rightarrow> error + real" where
  "calculateConfidence getTime dataPoints targetDate method =
     (if length dataPoints = 0 then Inr 0
      else if method = Linear \<and> length dataPoints = 2 then
        let beforePrice = dataPoints ! 0;
            afterPrice = dataPoints ! 1;
            beforeDate = getTime (timestamp beforePrice);
            afterDate = getTime (timestamp afterPrice);
            totalSpan = afterDate - beforeDate;
            targetPosition = (if totalSpan = 0 then 1 / 2
                              else real_of_int (targetDate - beforeDate) / real_of_int totalSpan);
            timeConfidence = 1 - \<bar>1 / 2 - targetPosition\<bar> * 2
        in bind_res (usd_of afterPrice) (\<lambda>afterUsd.
           bind_res (usd_of beforePrice) (\<lambda>beforeUsd.
             Inr (min 1 ((timeConfidence + volatilityConfidence beforeUsd afterUsd) / 2))))
      else if method = Extrapolation \<and> length dataPoints \<ge> 2 then
        let sortedPrices = sort_key (\<lambda>p. getTime (timestamp p)) dataPoints;
            n = length sortedPrices;
            lastKnownDate = getTime (timestamp (sortedPrices ! (n - 1)));
            firstKnownDate = getTime (timestamp (sortedPrices ! 0));
            dataSpan = lastKnownDate - firstKnownDate;
            extrapolationDistance = \<bar>targetDate - lastKnownDate\<bar>;
            timeConfidence =
              (if dataSpan = 0 then 1 / 10
               else max (1 / 10) (1 - real_of_int extrapolationDistance / real_of_int dataSpan));
            p1 = sortedPrices ! (n - 2);
            p2 = sortedPrices ! (n - 1)
        in bind_res (usd_of p2) (\<lambda>usd2.
           bind_res (usd_of p1) (\<lambda>usd1.
             Inr (min 1 ((timeConfidence + volatilityConfidence usd1 usd2) / 2))))
      else Inr 0)"

text \<open>The value \<open>interpolatePrice\<close> resolves to: the synthesized document and the
  \<open>dataPoints\<close> array it carries.\<close>

record interpolated_price =
  ip_doc :: price_doc
  ip_dataPoints :: "price_doc list"

text \<open>
  The body of the \<open>try\<close> block. \<open>getNearestPrices\<close> is the awaited call on the injected
  database manager (\<open>Inl\<close> when it rejects); \<open>now\<close> is \<open>new Date().toISOString()\<close>.
  An absent \<open>timestamp\<close> makes \<open>targetDate\<close> an Invalid Date, whose time is NaN: every
  comparison in the time-gap filter is then false and no point passes it.
\<close>

definition interpolatePrice_try ::
  "config \<Rightarrow> (string \<Rightarrow> int) \<Rightarrow> (string \<Rightarrow> string \<Rightarrow> string \<Rightarrow> nat \<Rightarrow> error + price_doc list) \<Rightarrow>
   string \<Rightarrow> string \<Rightarrow> string \<Rightarrow> string \<Rightarrow> error + interpolated_price option" where
  "interpolatePrice_try cfg getTime getNearestPrices now tok net ts =
     bind_res (getNearestPrices tok net ts (maxDataPoints cfg)) (\<lambda>nearestPrices.
       if length nearestPrices < 2 then Inr None
       else
         let targetDate = getTime ts;
             filteredPrices =
               (if \<not> truthy ts then []
                else filter (\<lambda>p. \<bar>real_of_int (targetDate - getTime (timestamp p))\<bar> / (1000 * 60 * 60)
                                  \<le> real_of_int (maxTimeGapHours cfg)) nearestPrices)
         in if length filteredPrices < 2 then Inr None
            else
              let beforePrices = filter (\<lambda>p. getTime (timestamp p) < targetDate) filteredPrices;
                  afterPrices = filter (\<lambda>p. getTime (timestamp p) > targetDate) filteredPrices
              in bind_res
                   (if length beforePrices = 0 \<or> length afterPrices = 0
                    then extrapolatePrice cfg getTime filteredPrices targetDate
                    else linearInterpolation getTime (last beforePrices) (hd afterPrices) targetDate)
                   (\<lambda>r. case res_usd r of
                          None \<Rightarrow> Inr None
                        | Some u \<Rightarrow>
                            if u \<le> 0 then Inr None
                            else bind_res (calculateConfidence getTime (res_points r) targetDate (res_method r))
                              (\<lambda>conf.
                                 if conf < minConfidenceThreshold cfg then Inr None
                                 else Inr (Some
                                   \<lparr> ip_doc =
                                       \<lparr> doc_id = [], token = tok, network = net, timestamp = ts,
                                         price = Some \<lparr> usd = u, lastUpdated = now \<rparr>,
                                         source = [], interpolated = True,
                                         interpolationMethod = Some (res_method r),
                                         confidence = Some conf,
                                         storedAt = None, createdAt = None,
                                         archivedAt = None, compressed = None \<rparr>,
                                     ip_dataPoints = res_points r \<rparr>))))"

text \<open>The whole method: the \<open>catch\<close> clause logs the error and returns \<open>null\<close>.\<close>

definition interpolatePrice ::
  "config \<Rightarrow> (string \<Rightarrow> int) \<Rightarrow> (string \<Rightarrow> string \<Rightarrow> string \<Rightarrow> nat \<Rightarrow> error + price_doc list) \<Rightarrow>
   string \<Rightarrow> string \<Rightarrow> string \<Rightarrow> string \<Rightarrow> error + interpolated_price option" where
  "interpolatePrice cfg getTime getNearestPrices now tok net ts =
     (case interpolatePrice_try cfg getTime getNearestPrices now tok net ts of
        Inl e \<Rightarrow> Inr None
      | Inr r \<Rightarrow> Inr r)"

section \<open>database-manager.js\<close>

text \<open>
  The collections the modelled operations use, each a list of documents in insertion
  order: \<open>prices\<close>, \<open>tokens\<close> (token, network, creationDate) and \<open>archived\<close>. The
  \<open>historical\<close> and \<open>metadata\<close> collections are written by helpers that swallow
  their own errors and are read by none of the operations below; they are left out.
\<close>

type_synonym token_entry = "string \<times> string \<times> string"

record database =
  prices :: "price_doc list"
  tokens :: "token_entry list"
  archived :: "price_doc list"

text \<open>\<open>replaceOne({_id}, document, {upsert: true})\<close> on the prices collection, with its
  unique index on (token, network, timestamp): a second document with these three fields
  and another \<open>_id\<close> is a duplicate-key error. An \<open>_id\<close> occurs at most once in
  a collection, so replacing every document that has it replaces the one that has it.\<close>

definition same_key :: "price_doc \<Rightarrow> price_doc \<Rightarrow> bool" where
  "same_key a b = (token a = token b \<and> network a = network b \<and> timestamp a = timestamp b)"

definition replaceOne_upsert :: "price_doc list \<Rightarrow> price_doc \<Rightarrow> error + price_doc list" where
  "replaceOne_upsert coll document =
     (if list_ex (\<lambda>x. doc_id x \<noteq> doc_id document \<and> same_key x document) coll
      then Inl DuplicateKey
      else if list_ex (\<lambda>x. doc_id x = doc_id document) coll
      then Inr (map (\<lambda>x. if doc_id x = doc_id document then document else x) coll)
      else Inr (coll @ [document]))"

definition storeTokenPrice :: "int \<Rightarrow> price_doc \<Rightarrow> database \<Rightarrow> error + database" where
  "storeTokenPrice now priceData d =
     (let document = priceData
            \<lparr> storedAt := Some now,
              doc_id := token priceData @ ''_'' @ network priceData @ ''_'' @
                        (if truthy (timestamp priceData) then timestamp priceData else ''current'') \<rparr>
      in case replaceOne_upsert (prices d) document of
           Inl e \<Rightarrow> Inl e
         | Inr ps \<Rightarrow> Inr (d \<lparr> prices := ps \<rparr>))"

text \<open>The document \<open>storeTokenPrice\<close> writes for a price record.\<close>

definition price_document :: "int \<Rightarrow> price_doc \<Rightarrow> price_doc" where
  "price_document now priceData =
     priceData \<lparr> storedAt := Some now,
                 doc_id := token priceData @ ''_'' @ network priceData @ ''_'' @
                           (if truthy (timestamp priceData) then timestamp priceData else ''current'') \<rparr>"

text \<open>Strings compare as the store compares them, character code by character code.\<close>

fun str_less :: "string \<Rightarrow> string \<Rightarrow> bool" where
  "str_less [] [] = False"
| "str_less [] (y # ys) = True"
| "str_less (x # xs) [] = False"
| "str_less (x # xs) (y # ys) =
     ((of_char x :: nat) < of_char y \<or> (x = y \<and> str_less xs ys))"

fun most_recent :: "price_doc list \<Rightarrow> price_doc option" where
  "most_recent [] = None"
| "most_recent (x # xs) =
     (case most_recent xs of
        None \<Rightarrow> Some x
      | Some b \<Rightarrow> if str_less (timestamp x) (timestamp b) then Some b else Some x)"

definition getTokenPrice :: "database \<Rightarrow> string \<Rightarrow> string \<Rightarrow> string \<Rightarrow> price_doc option" where
  "getTokenPrice d tok net ts =
     (if truthy ts
      then find (\<lambda>x. token x = toLowerCase tok \<and> network x = net \<and> timestamp x = ts) (prices d)
      else most_recent (filter (\<lambda>x. token x = toLowerCase tok \<and> network x = net) (prices d)))"

text \<open>Stable insertion sort under a comparison, for the store's sort on timestamp strings.\<close>

fun insert_by :: "('a \<Rightarrow> 'a \<Rightarrow> bool) \<Rightarrow> 'a \<Rightarrow> 'a list \<Rightarrow> 'a list" where
  "insert_by lt x [] = [x]"
| "insert_by lt x (y # ys) = (if lt y x then y # insert_by lt x ys else x # y # ys)"

definition sort_by :: "('a \<Rightarrow> 'a \<Rightarrow> bool) \<Rightarrow> 'a list \<Rightarrow> 'a list" where
  "sort_by lt xs = foldr (insert_by lt) xs []"

text \<open>\<open>getNearestPrices\<close>: \<open>toISOString\<close> is the runtime's rendering of a date. On an
  absent timestamp the date is invalid, \<open>toISOString\<close> throws, and the \<open>catch\<close> clause
  returns the empty array.\<close>

definition getNearestPrices ::
  "(string \<Rightarrow> int) \<Rightarrow> (int \<Rightarrow> string) \<Rightarrow> database \<Rightarrow> string \<Rightarrow> string \<Rightarrow> string \<Rightarrow> nat
     \<Rightarrow> error + price_doc list" where
  "getNearestPrices getTime toISOString d tok net targetTimestamp limit =
     (if \<not> truthy targetTimestamp then Inr []
      else
        let targetIso = toISOString (getTime targetTimestamp);
            beforePrices =
              take (limit div 2)
                (sort_by (\<lambda>a b. str_less (timestamp b) (timestamp a))
                  (filter (\<lambda>x. token x = toLowerCase tok \<and> network x = net
                                 \<and> str_less (timestamp x) targetIso) (prices d)));
            afterPrices =
              take (limit div 2)
                (sort_by (\<lambda>a b. str_less (timestamp a) (timestamp b))
                  (filter (\<lambda>x. token x = toLowerCase tok \<and> network x = net
                                 \<and> str_less targetIso (timestamp x)) (prices d)))
        in Inr (sort_key (\<lambda>p. getTime (timestamp p)) (beforePrices @ afterPrices)))"

definition getAllTokens :: "database \<Rightarrow> token_entry list" where
  "getAllTokens d = tokens d"

definition addToken :: "string \<Rightarrow> string \<Rightarrow> string \<Rightarrow> database \<Rightarrow> database" where
  "addToken tok net creationDate d =
     (let entry = (toLowerCase tok, net, creationDate);
          hit = (\<lambda>(t, n, c). t = toLowerCase tok \<and> n = net)
      in if list_ex hit (tokens d)
         then d \<lparr> tokens := map (\<lambda>e. if hit e then entry else e) (tokens d) \<rparr>
         else d \<lparr> tokens := tokens d @ [entry] \<rparr>)"

text \<open>\<open>insertMany\<close> on the archived collection (ordered): documents go in one by one; a
  document whose \<open>_id\<close> is already there stops the call with a duplicate-key error, and
  the documents inserted before it stay.\<close>

fun insertMany :: "price_doc list \<Rightarrow> price_doc list \<Rightarrow> price_doc list \<times> error option" where
  "insertMany coll [] = (coll, None)"
| "insertMany coll (x # xs) =
     (if list_ex (\<lambda>y. doc_id y = doc_id x) coll then (coll, Some DuplicateKey)
      else insertMany (coll @ [x]) xs)"

definition is_old :: "int \<Rightarrow> price_doc \<Rightarrow> bool" where
  "is_old cutoffDate x = (case createdAt x of None \<Rightarrow> False | Some c \<Rightarrow> c < cutoffDate)"

definition archive_copy :: "config \<Rightarrow> int \<Rightarrow> price_doc \<Rightarrow> price_doc" where
  "archive_copy cfg now x =
     x \<lparr> archivedAt := Some now, compressed := Some (archive_compressionEnabled cfg) \<rparr>"

text \<open>\<open>archiveOldData\<close>: \<open>now\<close> is the clock in epoch milliseconds; the cutoff is
  \<open>daysOld\<close> calendar days earlier (days of 24 hours). The result is the returned count
  and the database after the call; the \<open>catch\<close> clause returns 0.\<close>

definition archiveOldData :: "config \<Rightarrow> int \<Rightarrow> int \<Rightarrow> database \<Rightarrow> nat \<times> database" where
  "archiveOldData cfg now daysOld d =
     (let cutoffDate = now - daysOld * 86400000;
          oldData = filter (is_old cutoffDate) (prices d)
      in if length oldData > 0
         then (case insertMany (archived d) (map (archive_copy cfg now) oldData) of
                 (arch, Some e) \<Rightarrow> (0, d \<lparr> archived := arch \<rparr>)
               | (arch, None) \<Rightarrow>
                   (length oldData,
                    d \<lparr> archived := arch,
                        prices := filter (\<lambda>x. \<not> is_old cutoffDate x) (prices d) \<rparr>))
         else (length oldData, d))"

section \<open>alchemy-service.js\<close>

text \<open>
  What \<open>getTokenPriceWithRetry\<close> does, in order: calls of \<open>getTokenPrice\<close> (numbered by
  attempt) and waits in milliseconds. The outcome of the call made at each attempt is given
  by \<open>oracleCall\<close>: \<open>Inl\<close> a thrown error, \<open>Inr None\<close> a \<open>null\<close> return.
\<close>

datatype event = Attempt nat | Sleep nat

function getTokenPriceWithRetry_from ::
  "config \<Rightarrow> (nat \<Rightarrow> error + price_doc option) \<Rightarrow> nat \<Rightarrow> nat
     \<Rightarrow> (error + price_doc option) \<times> event list" where
  "getTokenPriceWithRetry_from cfg oracleCall maxRetries attempt =
     (if attempt \<le> maxRetries
      then (case oracleCall attempt of
              Inr (Some found) \<Rightarrow> (Inr (Some found), [Attempt attempt])
            | Inr None \<Rightarrow>
                (let (r, evs) = getTokenPriceWithRetry_from cfg oracleCall maxRetries (attempt + 1)
                 in (r, Attempt attempt # evs))
            | Inl e \<Rightarrow>
                if attempt = maxRetries then (Inl e, [Attempt attempt])
                else
                  (let (r, evs) = getTokenPriceWithRetry_from cfg oracleCall maxRetries (attempt + 1)
                   in (r, Attempt attempt # Sleep (2 ^ attempt * alchemy_retryDelay cfg) # evs)))
      else (Inr None, []))"
  by pat_completeness auto
termination
  by (relation "measure (\<lambda>(cfg, g, maxRetries, attempt). maxRetries + 1 - attempt)") auto

definition getTokenPriceWithRetry ::
  "config \<Rightarrow> (nat \<Rightarrow> error + price_doc option) \<Rightarrow> nat
     \<Rightarrow> (error + price_doc option) \<times> event list" where
  "getTokenPriceWithRetry cfg oracleCall maxRetries =
     getTokenPriceWithRetry_from cfg oracleCall maxRetries 1"

section \<open>The server: the resolution pipeline and the queue workers\<close>

text \<open>
  The services the server talks to are explicit state: the Redis cache (key to TTL in
  seconds and cached document), the database, the price-processing queue, and a log of
  every call made to a collaborator, in order. Within one request no cache entry expires.
\<close>

datatype op =
    CacheGet string
  | CacheSet string nat
  | DbGetPrice string string string
  | DbStore
  | DbGetAllTokens
  | DbAddToken string string string
  | OracleGetPrice string string string
  | OracleCreationDate string string
  | Wait nat
  | Interpolate string string string
  | QueueAdd

record job =
  job_token :: string
  job_network :: string
  job_timestamp :: string
  job_priority :: nat

record world =
  cache :: "string \<rightharpoonup> nat \<times> price_doc"
  db :: database
  priceQueue :: "job list"
  calls :: "op list"

text \<open>
  What the runtime and the upstream provider supply to one request or job: the date parser
  and printer, the clock (epoch milliseconds and ISO string), and the results of
  \<open>alchemyService.getTokenPrice\<close> (which catches its own errors and returns \<open>null\<close>)
  and \<open>alchemyService.getTokenCreationDate\<close> (\<open>null\<close> is the empty string).
\<close>

record env =
  env_getTime :: "string \<Rightarrow> int"
  env_toISOString :: "int \<Rightarrow> string"
  env_now :: int
  env_nowIso :: string
  oracle_price :: "string \<Rightarrow> string \<Rightarrow> string \<Rightarrow> price_doc option"
  oracle_creationDate :: "string \<Rightarrow> string \<Rightarrow> string"

text \<open>The reply: HTTP status and JSON body. \<open>data\<close> is the price document with the
  provenance flags the handler adds (an absent flag is \<open>False\<close>).\<close>

record reply_data =
  data_doc :: price_doc
  cached :: bool
  fromDB :: bool
  fromAPI :: bool

record reply =
  status :: nat
  success :: bool
  message :: string
  data :: "reply_data option"
  queued :: bool

definition generateCacheKey :: "config \<Rightarrow> string \<Rightarrow> string \<Rightarrow> string \<Rightarrow> string" where
  "generateCacheKey cfg tok net ts =
     (let key = appName cfg @ '':price:'' @ net @ '':'' @ toLowerCase tok
      in if truthy ts then key @ '':'' @ ts else key @ '':current'')"

text \<open>The pattern \<open>/^0x[a-fA-F0-9]{40}$/\<close>.\<close>

definition tokenRegex_test :: "string \<Rightarrow> bool" where
  "tokenRegex_test s =
     (length s = 42 \<and> take 2 s = ''0x''
      \<and> list_all (\<lambda>c. c \<in> set ''0123456789abcdefABCDEF'') (drop 2 s))"

fun join_comma :: "string list \<Rightarrow> string" where
  "join_comma [] = []"
| "join_comma [x] = x"
| "join_comma (x # y # ys) = x @ '', '' @ join_comma (y # ys)"

definition bad_request :: "string \<Rightarrow> reply" where
  "bad_request msg =
     \<lparr> status = 400, success = False, message = msg, data = None, queued = False \<rparr>"

definition server_error :: reply where
  "server_error =
     \<lparr> status = 500, success = False, message = ''Internal server error'', data = None,
       queued = False \<rparr>"

definition ok_reply :: "string \<Rightarrow> reply_data \<Rightarrow> reply" where
  "ok_reply msg d =
     \<lparr> status = 200, success = True, message = msg, data = Some d, queued = False \<rparr>"

definition log_call :: "op \<Rightarrow> world \<Rightarrow> world" where
  "log_call c w = w \<lparr> calls := calls w @ [c] \<rparr>"

definition setEx :: "string \<Rightarrow> nat \<Rightarrow> price_doc \<Rightarrow> world \<Rightarrow> world" where
  "setEx key ttl v w = log_call (CacheSet key ttl) (w \<lparr> cache := (cache w)(key \<mapsto> (ttl, v)) \<rparr>)"

text \<open>The block both the handler and the price worker run after a price was stored: add
  the token to the registry when it is not there and its creation date can be found.\<close>

definition register_token :: "env \<Rightarrow> string \<Rightarrow> string \<Rightarrow> world \<Rightarrow> world" where
  "register_token e tok net w =
     (let w1 = log_call DbGetAllTokens w
      in case find (\<lambda>(t, n, c). t = toLowerCase tok \<and> n = net) (getAllTokens (db w1)) of
           Some existing \<Rightarrow> w1
         | None \<Rightarrow>
             (let creationDate = oracle_creationDate e tok net;
                  w2 = log_call (OracleCreationDate tok net) w1
              in if truthy creationDate
                 then log_call (DbAddToken tok net creationDate)
                        (w2 \<lparr> db := addToken tok net creationDate (db w2) \<rparr>)
                 else w2))"

text \<open>Step 5 of the handler: enqueue a fetch-missing-price job and answer 202.\<close>

definition enqueue_missing :: "string \<Rightarrow> string \<Rightarrow> string \<Rightarrow> world \<Rightarrow> reply \<times> world" where
  "enqueue_missing tok net ts w =
     (\<lparr> status = 202, success = False,
        message = ''Price not available, added to processing queue'',
        data = None, queued = True \<rparr>,
      log_call QueueAdd
        (w \<lparr> priceQueue := priceQueue w @
               [\<lparr> job_token = tok, job_network = net, job_timestamp = ts,
                   job_priority = (if truthy ts then 1 else 10) \<rparr>] \<rparr>))"

text \<open>Step 4: the interpolation engine on the stored neighbours. The two writes of
  \<open>Promise.all\<close> both start; a rejected store write reaches the handler's \<open>catch\<close>
  (status 500) after the cache was set. The reply carries the synthesized document.\<close>

definition run_interpolation ::
  "config \<Rightarrow> env \<Rightarrow> string \<Rightarrow> string \<Rightarrow> string \<Rightarrow> world \<Rightarrow> error + interpolated_price option" where
  "run_interpolation cfg e tok net ts w =
     interpolatePrice cfg (env_getTime e)
       (getNearestPrices (env_getTime e) (env_toISOString e) (db w)) (env_nowIso e) tok net ts"

definition interpolate_step ::
  "config \<Rightarrow> env \<Rightarrow> string \<Rightarrow> string \<Rightarrow> string \<Rightarrow> world \<Rightarrow> reply \<times> world" where
  "interpolate_step cfg e tok net ts w =
     (let w1 = log_call (Interpolate tok net ts) w
      in case run_interpolation cfg e tok net ts w1 of
           Inl err \<Rightarrow> (server_error, w1)
         | Inr (Some ip) \<Rightarrow>
             (let w2 = setEx (generateCacheKey cfg tok net ts) (ttl_interpolatedPrice cfg) (ip_doc ip) w1;
                  w3 = log_call DbStore w2
              in case storeTokenPrice (env_now e) ((ip_doc ip) \<lparr> interpolated := True \<rparr>) (db w3) of
                   Inl err \<Rightarrow> (server_error, w3)
                 | Inr d' \<Rightarrow>
                     (ok_reply ''Price interpolated from available data''
                        \<lparr> data_doc = (ip_doc ip) \<lparr> interpolated := True \<rparr>,
                          cached = False, fromDB = False, fromAPI = False \<rparr>,
                      w3 \<lparr> db := d' \<rparr>))
         | Inr None \<Rightarrow> enqueue_missing tok net ts w1)"

text \<open>Step 3: the upstream provider.\<close>

definition oracle_step ::
  "config \<Rightarrow> env \<Rightarrow> string \<Rightarrow> string \<Rightarrow> string \<Rightarrow> world \<Rightarrow> reply \<times> world" where
  "oracle_step cfg e tok net ts w =
     (let w1 = log_call (OracleGetPrice tok net ts) w
      in case oracle_price e tok net ts of
           Some alchemyPrice \<Rightarrow>
             (let w2 = setEx (generateCacheKey cfg tok net ts) (ttl_currentPrice cfg) alchemyPrice w1;
                  w3 = log_call DbStore w2
              in case storeTokenPrice (env_now e) alchemyPrice (db w3) of
                   Inl err \<Rightarrow> (server_error, w3)
                 | Inr d' \<Rightarrow>
                     (ok_reply ''Price retrieved from Alchemy API''
                        \<lparr> data_doc = alchemyPrice, cached = False, fromDB = False, fromAPI = True \<rparr>,
                      register_token e tok net (w3 \<lparr> db := d' \<rparr>)))
         | None \<Rightarrow> interpolate_step cfg e tok net ts w1)"

text \<open>The handler of \<open>POST /api/tokens\<close> with body \<open>{token, network, timestamp}\<close>.\<close>

definition post_api_tokens ::
  "config \<Rightarrow> env \<Rightarrow> string \<Rightarrow> string \<Rightarrow> string \<Rightarrow> world \<Rightarrow> reply \<times> world" where
  "post_api_tokens cfg e tok net ts w =
     (if \<not> truthy tok \<or> \<not> truthy net
      then (bad_request ''Token address and network are required'', w)
      else if \<not> tokenRegex_test tok
      then (bad_request ''Invalid token address format'', w)
      else if \<not> List.member (networks_supported cfg) (toLowerCase net)
      then (bad_request (''Unsupported network: '' @ net @ ''. Supported networks are: ''
                          @ join_comma (networks_supported cfg)), w)
      else
        let cacheKey = generateCacheKey cfg tok net ts;
            w1 = log_call (CacheGet cacheKey) w
        in case cache w1 cacheKey of
             Some (ttl, cachedPrice) \<Rightarrow>
               (ok_reply ''Price retrieved from cache''
                  \<lparr> data_doc = cachedPrice, cached = True, fromDB = False, fromAPI = False \<rparr>,
                w1)
           | None \<Rightarrow>
               (let w2 = log_call (DbGetPrice tok net ts) w1
                in case getTokenPrice (db w2) tok net ts of
                     Some dbPrice \<Rightarrow>
                       (ok_reply ''Price retrieved from database''
                          \<lparr> data_doc = dbPrice, cached = False, fromDB = True, fromAPI = False \<rparr>,
                        setEx cacheKey (ttl_currentPrice cfg) dbPrice w2)
                   | None \<Rightarrow> oracle_step cfg e tok net ts w2))"

subsection \<open>The price-processing worker\<close>

datatype job_result = JobPrice price_doc bool | JobNoData

definition event_op :: "string \<Rightarrow> string \<Rightarrow> string \<Rightarrow> event \<Rightarrow> op" where
  "event_op tok net ts ev =
     (case ev of Attempt a \<Rightarrow> OracleGetPrice tok net ts | Sleep ms \<Rightarrow> Wait ms)"

text \<open>The job handler; \<open>oracleCall\<close> gives the outcome of each attempt of the retry
  wrapper. \<open>Inl\<close> is the rethrown error (the job fails).\<close>

definition priceProcessingWorker ::
  "config \<Rightarrow> env \<Rightarrow> (nat \<Rightarrow> error + price_doc option) \<Rightarrow> job \<Rightarrow> world
     \<Rightarrow> (error + job_result) \<times> world" where
  "priceProcessingWorker cfg e oracleCall j w =
     (let tok = job_token j; net = job_network j; ts = job_timestamp j;
          (r, evs) = getTokenPriceWithRetry cfg oracleCall (alchemy_maxRetries cfg);
          w1 = w \<lparr> calls := calls w @ map (event_op tok net ts) evs \<rparr>
      in case r of
           Inl err \<Rightarrow> (Inl err, w1)
         | Inr (Some found) \<Rightarrow>
             (let w2 = setEx (generateCacheKey cfg tok net ts) (ttl_currentPrice cfg) found w1;
                  w3 = log_call DbStore w2
              in case storeTokenPrice (env_now e) found (db w3) of
                   Inl err \<Rightarrow> (Inl err, w3)
                 | Inr d' \<Rightarrow> (Inr (JobPrice found False), register_token e tok net (w3 \<lparr> db := d' \<rparr>)))
         | Inr None \<Rightarrow>
             (let w2 = log_call (Interpolate tok net ts) w1
              in case run_interpolation cfg e tok net ts w2 of
                   Inl err \<Rightarrow> (Inl err, w2)
                 | Inr (Some ip) \<Rightarrow>
                     (let w3 = setEx (generateCacheKey cfg tok net ts) (ttl_interpolatedPrice cfg)
                                 (ip_doc ip) w2;
                          w4 = log_call DbStore w3
                      in case storeTokenPrice (env_now e) ((ip_doc ip) \<lparr> interpolated := True \<rparr>) (db w4) of
                           Inl err \<Rightarrow> (Inl err, w4)
                         | Inr d' \<Rightarrow> (Inr (JobPrice (ip_doc ip) True), w4 \<lparr> db := d' \<rparr>))
                 | Inr None \<Rightarrow> (Inr JobNoData, w2)))"


section \<open>data-lifecycle-manager.js: the batch routine\<close>









text \<open>The attempt numbers of the calls in a trace, in order.\<close>

fun attempts_of :: "event list \<Rightarrow> nat list" where
  "attempts_of [] = []"
| "attempts_of (Attempt n # es) = n # attempts_of es"
| "attempts_of (Sleep d # es) = attempts_of es"

section \<open>Sample data for the concrete checks\<close>

definition mk_doc :: "string \<Rightarrow> string \<Rightarrow> string \<Rightarrow> real \<Rightarrow> price_doc" where
  "mk_doc tok net ts u =
     \<lparr> doc_id = [], token = tok, network = net, timestamp = ts,
       price = Some \<lparr> usd = u, lastUpdated = ts \<rparr>,
       source = ''alchemy_simulated'', interpolated = False,
       interpolationMethod = None, confidence = None,
       storedAt = None, createdAt = None, archivedAt = None, compressed = None \<rparr>"

text \<open>The runtime's date parser on the timestamps the checks use.\<close>

definition sample_getTime :: "string \<Rightarrow> int" where
  "sample_getTime s =
     (if s = ''2024-01-01T00:00:00Z'' then 1704067200000
      else if s = ''2024-01-01T12:00:00Z'' then 1704110400000
      else if s = ''2024-01-02T00:00:00Z'' then 1704153600000
      else if s = ''2024-01-03T00:00:00Z'' then 1704240000000
      else if s = ''2024-01-04T00:00:00Z'' then 1704326400000
      else 0)"

definition token_a :: string where
  "token_a = ''0xaaaaaaaaaaaaaaaaaaaaaaaaaaaaaaaaaaaaaaaa''"

text \<open>A configuration that allows an extrapolated price to move by 10 percent, and a store
  query that finds two points, both later than the target time 2024-01-01T00:00:00Z.\<close>

definition config_k10 :: config where
  "config_k10 = default_config \<lparr> extrapolationMaxChangePercent := 10 \<rparr>"

definition later_points :: "price_doc list" where
  "later_points =
     [mk_doc token_a ''ethereum'' ''2024-01-01T12:00:00Z'' 100,
      mk_doc token_a ''ethereum'' ''2024-01-02T00:00:00Z'' 150]"

definition later_points_query :: "string \<Rightarrow> string \<Rightarrow> string \<Rightarrow> nat \<Rightarrow> error + price_doc list" where
  "later_points_query tok net ts limit = Inr later_points"

text \<open>Two oracles for the retry wrapper: one that returns \<open>null\<close> at every attempt, one
  that throws, then returns \<open>null\<close>, then returns a price.\<close>

definition always_null :: "nat \<Rightarrow> error + price_doc option" where
  "always_null attempt = Inr None"

definition throw_null_found :: "nat \<Rightarrow> error + price_doc option" where
  "throw_null_found attempt =
     (if attempt = 1 then Inl OracleError
      else if attempt = 2 then Inr None
      else Inr (Some (mk_doc token_a ''ethereum'' ''2024-01-01T00:00:00Z'' 10)))"

text \<open>Stored documents and databases for the checks of the durable store.\<close>

definition stored_doc :: "string \<Rightarrow> string \<Rightarrow> string \<Rightarrow> real \<Rightarrow> int \<Rightarrow> price_doc" where
  "stored_doc tok net ts u created =
     (mk_doc tok net ts u)
       \<lparr> doc_id := tok @ ''_'' @ net @ ''_'' @ ts,
         storedAt := Some created, createdAt := Some created \<rparr>"

definition token_A_upper :: string where
  "token_A_upper = ''0xAAAAAAAAAAAAAAAAAAAAAAAAAAAAAAAAAAAAAAAA''"

definition empty_db :: database where
  "empty_db = \<lparr> prices = [], tokens = [], archived = [] \<rparr>"

definition sample_now :: int where
  "sample_now = 8640000000"

definition archive_db_ok :: database where
  "archive_db_ok =
     \<lparr> prices = [stored_doc token_a ''ethereum'' ''2024-01-01T00:00:00Z'' 10 0,
                 stored_doc token_a ''ethereum'' ''2024-01-02T00:00:00Z'' 20 8640000000],
       tokens = [], archived = [] \<rparr>"

definition archive_db_dup :: database where
  "archive_db_dup =
     \<lparr> prices = [stored_doc token_a ''ethereum'' ''2024-01-01T00:00:00Z'' 10 0,
                 stored_doc token_a ''ethereum'' ''2024-01-02T00:00:00Z'' 20 0],
       tokens = [],
       archived = [archive_copy default_config 0
                     (stored_doc token_a ''ethereum'' ''2024-01-02T00:00:00Z'' 15 0)] \<rparr>"

text \<open>A runtime for the checks of the server, an empty world, and the world of the
  store-hit scenario: nothing cached, one stored record for 0xbbbb... on polygon.\<close>

definition sample_toISOString :: "int \<Rightarrow> string" where
  "sample_toISOString ms =
     (if ms = 1704067200000 then ''2024-01-01T00:00:00.000Z''
      else if ms = 1704153600000 then ''2024-01-02T00:00:00.000Z''
      else if ms = 1704240000000 then ''2024-01-03T00:00:00.000Z''
      else ''2024-01-04T00:00:00.000Z'')"

definition sample_env :: env where
  "sample_env =
     \<lparr> env_getTime = sample_getTime, env_toISOString = sample_toISOString,
       env_now = 1717200000000, env_nowIso = ''2024-06-01T00:00:00.000Z'',
       oracle_price = (\<lambda>tok net ts. None),
       oracle_creationDate = (\<lambda>tok net. []) \<rparr>"

definition token_b :: string where
  "token_b = ''0xbbbbbbbbbbbbbbbbbbbbbbbbbbbbbbbbbbbbbbbb''"

definition empty_world :: world where
  "empty_world = \<lparr> cache = Map.empty, db = empty_db, priceQueue = [], calls = [] \<rparr>"

definition store_hit_world :: world where
  "store_hit_world =
     empty_world \<lparr> db := empty_db \<lparr> prices :=
       [stored_doc token_b ''polygon'' ''2024-01-01T00:00:00Z'' (5 / 2) 0] \<rparr> \<rparr>"


definition always_found :: "nat \<Rightarrow> error + price_doc option" where
  "always_found attempt = Inr (Some (mk_doc token_a ''ethereum'' ''2024-01-01T00:00:00Z'' 12))"

definition worker_job :: job where
  "worker_job =
     \<lparr> job_token = token_a, job_network = ''ethereum'',
       job_timestamp = ''2024-01-01T00:00:00Z'', job_priority = 1 \<rparr>"

definition worker_world :: world where
  "worker_world =
     empty_world \<lparr> db := empty_db \<lparr> prices :=
       [stored_doc token_a ''ethereum'' ''2024-01-01T00:00:00Z'' 10 0] \<rparr> \<rparr>"





section \<open>The specification's formulas, for comparison\<close>

text \<open>Modelled from the spec: the confidence of a linear interpolation as section 4.4
  words it, with the position equal to the interpolation ratio in every case.\<close>

definition spec_linear_confidence :: "real \<Rightarrow> real \<Rightarrow> real \<Rightarrow> real" where
  "spec_linear_confidence ratio beforeUsd afterUsd =
     (let timeConfidence = 1 - 2 * \<bar>1 / 2 - ratio\<bar>;
          volatilityConf = max 0 (1 - \<bar>afterUsd - beforeUsd\<bar> / ((beforeUsd + afterUsd) / 2))
      in (timeConfidence + volatilityConf) / 2)"

text \<open>Modelled from the spec: the supported networks as section 4.1 lists them.\<close>

definition spec_supported_networks :: "string list" where
  "spec_supported_networks =
     [''ethereum'', ''polygon'', ''bsc'', ''avalanche'', ''arbitrum'', ''optimism'']"

section \<open>Properties of the interpolation engine\<close>

lemma usd_of_Some: "price p = Some pr \<Longrightarrow> usd_of p = Inr (usd pr)"
  by (simp add: usd_of_def)

lemma bind_res_Inr: "bind_res (Inr x) f = f x"
  by (simp add: bind_res_def)

lemma bind_res_Inl: "bind_res (Inl e) f = Inl e"
  by (simp add: bind_res_def)

lemma price_mk_doc: "price (mk_doc tok net ts u) = Some \<lparr> usd = u, lastUpdated = ts \<rparr>"
  by (simp add: mk_doc_def)

lemma timestamp_mk_doc: "timestamp (mk_doc tok net ts u) = ts"
  by (simp add: mk_doc_def)

lemma linearInterpolation_run:
  assumes "price beforePrice = Some pb" and "price afterPrice = Some pa"
  shows "linearInterpolation getTime beforePrice afterPrice targetDate =
           Inr \<lparr> res_usd = Some (usd pb + (usd pa - usd pb) *
                   (if getTime (timestamp afterPrice) = getTime (timestamp beforePrice) then 0
                    else real_of_int (targetDate - getTime (timestamp beforePrice))
                         / real_of_int (getTime (timestamp afterPrice) - getTime (timestamp beforePrice)))),
                 res_method = Linear, res_points = [beforePrice, afterPrice] \<rparr>"
  using assms by (simp add: linearInterpolation_def Let_def usd_of_Some bind_res_Inr)

text \<open>
  C2. Linear interpolation between two reference points whose price is present returns
  \<open>before.usd + (after.usd - before.usd) * ratio\<close>, where the ratio is
  \<open>(target - before.ts) / (after.ts - before.ts)\<close> and is 0 when the two reference
  timestamps coincide. A target midway between two distinct points priced 10 and 20
  gives exactly 15.
\<close>

theorem linearInterpolation_usd:
  assumes "price beforePrice = Some pb" and "price afterPrice = Some pa"
  shows "\<exists>r. linearInterpolation getTime beforePrice afterPrice targetDate = Inr r
           \<and> res_usd r =
               Some (usd pb + (usd pa - usd pb) *
                 (if getTime (timestamp afterPrice) = getTime (timestamp beforePrice) then 0
                  else real_of_int (targetDate - getTime (timestamp beforePrice))
                       / real_of_int (getTime (timestamp afterPrice) - getTime (timestamp beforePrice))))
           \<and> (usd pb = 10 \<and> usd pa = 20
                \<and> getTime (timestamp beforePrice) < getTime (timestamp afterPrice)
                \<and> 2 * targetDate = getTime (timestamp beforePrice) + getTime (timestamp afterPrice)
               \<longrightarrow> res_usd r = Some 15)"
proof -
  let ?tb = "getTime (timestamp beforePrice)"
  let ?ta = "getTime (timestamp afterPrice)"
  let ?ratio = "if ?ta = ?tb then 0 else real_of_int (targetDate - ?tb) / real_of_int (?ta - ?tb)"
  let ?r = "\<lparr> res_usd = Some (usd pb + (usd pa - usd pb) * ?ratio), res_method = Linear,
              res_points = [beforePrice, afterPrice] \<rparr>"
  have run: "linearInterpolation getTime beforePrice afterPrice targetDate = Inr ?r"
    using assms by (rule linearInterpolation_run)
  have mid: "?ratio = 1 / 2" if "?tb < ?ta" "2 * targetDate = ?tb + ?ta"
  proof -
    define d where "d = real_of_int (targetDate - ?tb)"
    from that have eq: "?ta - ?tb = 2 * (targetDate - ?tb)" by simp
    from that have ne: "?ta \<noteq> ?tb" by simp
    from that have "targetDate - ?tb \<noteq> 0" by linarith
    then have nz: "d \<noteq> 0" unfolding d_def by (simp only: of_int_eq_0_iff not_False_eq_True)
    have "real_of_int (?ta - ?tb) = 2 * d"
      unfolding d_def by (simp only: eq of_int_mult of_int_numeral)
    then have "?ratio = d / (2 * d)" using ne unfolding d_def by (simp only: if_False)
    also have "\<dots> = 1 / 2" using nz by (simp add: field_simps)
    finally show ?thesis .
  qed
  have "res_usd ?r = Some 15"
    if "usd pb = 10" "usd pa = 20" "?tb < ?ta" "2 * targetDate = ?tb + ?ta"
    using mid [OF that(3,4)] that(1,2) by simp
  with run show ?thesis by (intro exI [of _ ?r]) simp
qed

theorem linearInterpolation_usd_witness:
  "\<exists>r. linearInterpolation sample_getTime
          (mk_doc token_a ''ethereum'' ''2024-01-01T00:00:00Z'' 10)
          (mk_doc token_a ''ethereum'' ''2024-01-03T00:00:00Z'' 20)
          1704153600000 = Inr r
       \<and> res_usd r = Some 15"
  using linearInterpolation_usd
    [of "mk_doc token_a ''ethereum'' ''2024-01-01T00:00:00Z'' 10"
        "\<lparr> usd = 10, lastUpdated = ''2024-01-01T00:00:00Z'' \<rparr>"
        "mk_doc token_a ''ethereum'' ''2024-01-03T00:00:00Z'' 20"
        "\<lparr> usd = 20, lastUpdated = ''2024-01-03T00:00:00Z'' \<rparr>"
        sample_getTime 1704153600000]
  by (simp add: price_mk_doc timestamp_mk_doc sample_getTime_def)

lemma volatilityConfidence_le_1:
  assumes "0 < a" "0 < b" shows "volatilityConfidence a b \<le> 1"
proof -
  have "0 \<le> \<bar>b - a\<bar> / ((b + a) / 2)" using assms by simp
  then show ?thesis using assms by (simp add: volatilityConfidence_def Let_def)
qed

text \<open>
  C7 (amended). For a linear interpolation between two points whose price is present the
  confidence is \<open>min 1 ((timeConfidence + volatilityConfidence) / 2)\<close>, where
  \<open>timeConfidence = 1 - 2 * |0.5 - position|\<close>, the position is the interpolation
  ratio when the reference timestamps differ and 0.5 when they coincide, and
  \<open>volatilityConfidence = max 0 (1 - |after.usd - before.usd| / mean)\<close>, taken as 0
  when the mean is 0. With positive prices the cap at 1 never applies. When the reference
  timestamps coincide, linear interpolation returns \<open>before.usd\<close> and the confidence is
  \<open>(1 + volatilityConfidence) / 2\<close>: only the volatility limits it.
\<close>

theorem calculateConfidence_linear:
  assumes "price beforePrice = Some pb" and "price afterPrice = Some pa"
  shows "let tb = getTime (timestamp beforePrice);
             ta = getTime (timestamp afterPrice);
             position = (if ta = tb then 1 / 2
                         else real_of_int (targetDate - tb) / real_of_int (ta - tb));
             timeConfidence = 1 - 2 * \<bar>1 / 2 - position\<bar>;
             mean = (usd pb + usd pa) / 2;
             volatilityConf = max 0 (1 - (if mean = 0 then 1 else \<bar>usd pa - usd pb\<bar> / mean));
             c = calculateConfidence getTime [beforePrice, afterPrice] targetDate Linear
         in c = Inr (min 1 ((timeConfidence + volatilityConf) / 2))
            \<and> (0 < usd pb \<and> 0 < usd pa \<longrightarrow> c = Inr ((timeConfidence + volatilityConf) / 2))
            \<and> (ta = tb \<longrightarrow> c = Inr (min 1 ((1 + volatilityConf) / 2))
                  \<and> (\<exists>r. linearInterpolation getTime beforePrice afterPrice targetDate = Inr r
                         \<and> res_usd r = Some (usd pb)))"
proof -
  let ?tb = "getTime (timestamp beforePrice)"
  let ?ta = "getTime (timestamp afterPrice)"
  let ?pos = "if ?ta = ?tb then 1 / 2 else real_of_int (targetDate - ?tb) / real_of_int (?ta - ?tb)"
  let ?tc = "1 - 2 * \<bar>1 / 2 - ?pos\<bar>"
  let ?vc = "volatilityConfidence (usd pb) (usd pa)"
  let ?c = "calculateConfidence getTime [beforePrice, afterPrice] targetDate Linear"
  have vc: "?vc = max 0 (1 - (if (usd pb + usd pa) / 2 = 0 then 1
                              else \<bar>usd pa - usd pb\<bar> / ((usd pb + usd pa) / 2)))"
    by (simp add: volatilityConfidence_def Let_def add.commute)
  have run: "?c = Inr (min 1 ((?tc + ?vc) / 2))"
    using assms
    by (simp add: calculateConfidence_def Let_def usd_of_Some bind_res_Inr mult.commute)
  have avg_le: "(x + y) / 2 \<le> 1" if "x \<le> 1" "y \<le> 1" for x y :: real
    using that by simp
  have nocap: "min 1 ((?tc + ?vc) / 2) = (?tc + ?vc) / 2" if "0 < usd pb" "0 < usd pa"
  proof -
    have "?vc \<le> 1" using that by (rule volatilityConfidence_le_1)
    moreover have "?tc \<le> 1" by simp
    ultimately have "(?tc + ?vc) / 2 \<le> 1" by (rule avg_le [rotated])
    then show ?thesis by (simp only: min_absorb2)
  qed
  have deg_c: "?c = Inr (min 1 ((1 + ?vc) / 2))" if "?ta = ?tb"
    using run that by simp
  have deg_l: "\<exists>r. linearInterpolation getTime beforePrice afterPrice targetDate = Inr r
                  \<and> res_usd r = Some (usd pb)" if "?ta = ?tb"
    using linearInterpolation_run [OF assms, of getTime targetDate] that by auto
  show ?thesis
    unfolding Let_def vc [symmetric]
    using run nocap deg_c deg_l by simp
qed

text \<open>The scenario of section 8: points priced 10 and 20 two days apart, target midway;
  the confidence is \<open>(1 + (1 - 10/15)) / 2 = 2/3\<close>.\<close>

theorem calculateConfidence_linear_witness:
  "calculateConfidence sample_getTime
     [mk_doc token_a ''ethereum'' ''2024-01-01T00:00:00Z'' 10,
      mk_doc token_a ''ethereum'' ''2024-01-03T00:00:00Z'' 20]
     1704153600000 Linear = Inr (2 / 3)"
  using calculateConfidence_linear
    [of "mk_doc token_a ''ethereum'' ''2024-01-01T00:00:00Z'' 10"
        "\<lparr> usd = 10, lastUpdated = ''2024-01-01T00:00:00Z'' \<rparr>"
        "mk_doc token_a ''ethereum'' ''2024-01-03T00:00:00Z'' 20"
        "\<lparr> usd = 20, lastUpdated = ''2024-01-03T00:00:00Z'' \<rparr>"
        sample_getTime 1704153600000]
  by (simp add: price_mk_doc timestamp_mk_doc sample_getTime_def Let_def)

text \<open>
  C7 as stated fails when the two reference timestamps coincide: the interpolation ratio
  is 0 (the result is \<open>before.usd = 10\<close>), so the stated formula gives
  \<open>(0 + 1/3) / 2 = 1/6\<close>, while the code takes the position to be 0.5 and returns
  \<open>(1 + 1/3) / 2 = 2/3\<close>.
\<close>

theorem calculateConfidence_linear_counterexample:
  "linearInterpolation sample_getTime
     (mk_doc token_a ''ethereum'' ''2024-01-01T00:00:00Z'' 10)
     (mk_doc token_a ''ethereum'' ''2024-01-01T00:00:00Z'' 20)
     1704067200000
   = Inr \<lparr> res_usd = Some 10, res_method = Linear,
           res_points = [mk_doc token_a ''ethereum'' ''2024-01-01T00:00:00Z'' 10,
                         mk_doc token_a ''ethereum'' ''2024-01-01T00:00:00Z'' 20] \<rparr>
   \<and> calculateConfidence sample_getTime
        [mk_doc token_a ''ethereum'' ''2024-01-01T00:00:00Z'' 10,
         mk_doc token_a ''ethereum'' ''2024-01-01T00:00:00Z'' 20]
        1704067200000 Linear = Inr (2 / 3)
   \<and> spec_linear_confidence 0 10 20 = 1 / 6
   \<and> calculateConfidence sample_getTime
        [mk_doc token_a ''ethereum'' ''2024-01-01T00:00:00Z'' 10,
         mk_doc token_a ''ethereum'' ''2024-01-01T00:00:00Z'' 20]
        1704067200000 Linear \<noteq> Inr (spec_linear_confidence 0 10 20)"
  by (simp add: linearInterpolation_def calculateConfidence_def volatilityConfidence_def
      spec_linear_confidence_def usd_of_def bind_res_def mk_doc_def sample_getTime_def Let_def)

lemma usd_of_cases:
  obtains (none) "price p = None" "usd_of p = Inl TypeError"
        | (some) pr where "price p = Some pr" "usd_of p = Inr (usd pr)"
  by (cases "price p") (auto simp: usd_of_def)

lemma clamp_floor_bounds:
  fixes u2 k raw :: real
  defines "mc \<equiv> \<bar>u2 * k\<bar>"
  defines "u \<equiv> max (1 / 10000) (max (u2 - mc) (min (u2 + mc) raw))"
  shows "1 / 10000 \<le> u" and "0 < u"
    and "0 \<le> u2 \<Longrightarrow> 0 \<le> k \<Longrightarrow> 1 / 10000 \<le> u2 * (1 + k) \<Longrightarrow> u2 * (1 - k) \<le> u \<and> u \<le> u2 * (1 + k)"
proof -
  show "1 / 10000 \<le> u" unfolding u_def by simp
  then show "0 < u" by simp
  assume a: "0 \<le> u2" "0 \<le> k" "1 / 10000 \<le> u2 * (1 + k)"
  then have mc: "mc = u2 * k" unfolding mc_def by simp
  have lo: "u2 * (1 - k) = u2 - mc" and hi: "u2 * (1 + k) = u2 + mc"
    unfolding mc by (simp_all add: algebra_simps)
  have "0 \<le> mc" unfolding mc_def by simp
  then have "u2 - mc \<le> u2 + mc" by simp
  then show "u2 * (1 - k) \<le> u \<and> u \<le> u2 * (1 + k)"
    using a(3) unfolding lo hi u_def by (simp add: max_def min_def)
qed

lemma sample_times:
  "sample_getTime ''2024-01-01T00:00:00Z'' = 1704067200000"
  "sample_getTime ''2024-01-01T12:00:00Z'' = 1704110400000"
  "sample_getTime ''2024-01-02T00:00:00Z'' = 1704153600000"
  "sample_getTime ''2024-01-03T00:00:00Z'' = 1704240000000"
  "sample_getTime ''2024-01-04T00:00:00Z'' = 1704326400000"
  by (simp_all add: sample_getTime_def)

text \<open>
  What \<open>extrapolatePrice\<close> does on every input. Whenever it returns a price, the two
  points used are \<open>[p1, p2]\<close> with \<open>p1\<close> strictly earlier than \<open>p2\<close>, and the
  price is the linear extrapolation through them, clamped to
  \<open>[p2.usd - |p2.usd * k|, p2.usd + |p2.usd * k|]\<close> with
  \<open>k = extrapolationMaxChangePercent / 100\<close> and then raised to at least 0.0001, so it is
  never 0 or negative. It lies in \<open>[p2.usd * (1 - k), p2.usd * (1 + k)]\<close> whenever
  \<open>p2.usd\<close> and \<open>k\<close> are not negative and the upper end is at least 0.0001. When no
  known point lies after the target, \<open>p2\<close> is the latest known point, which is then the
  nearest one.
\<close>

lemma extrapolatePrice_clamp:
  assumes "extrapolatePrice cfg getTime known targetDate = Inr r" and "res_usd r = Some u"
  shows "\<exists>p1 p2 pr1 pr2.
           res_points r = [p1, p2] \<and> p1 \<in> set known \<and> p2 \<in> set known
           \<and> price p1 = Some pr1 \<and> price p2 = Some pr2
           \<and> getTime (timestamp p1) < getTime (timestamp p2)
           \<and> (let k = real_of_int (extrapolationMaxChangePercent cfg) / 100;
                   raw = usd pr2 + (usd pr2 - usd pr1)
                           / real_of_int (getTime (timestamp p2) - getTime (timestamp p1))
                           * real_of_int (targetDate - getTime (timestamp p2))
               in u = max (1 / 10000) (max (usd pr2 - \<bar>usd pr2 * k\<bar>) (min (usd pr2 + \<bar>usd pr2 * k\<bar>) raw))
                  \<and> 1 / 10000 \<le> u \<and> 0 < u
                  \<and> (0 \<le> usd pr2 \<and> 0 \<le> k \<and> 1 / 10000 \<le> usd pr2 * (1 + k)
                       \<longrightarrow> usd pr2 * (1 - k) \<le> u \<and> u \<le> usd pr2 * (1 + k)))
           \<and> ((\<forall>p \<in> set known. getTime (timestamp p) \<le> targetDate)
                 \<longrightarrow> (\<forall>p \<in> set known. getTime (timestamp p) \<le> getTime (timestamp p2)))"
proof -
  define f where "f = (\<lambda>p::price_doc. getTime (timestamp p))"
  define sp where "sp = sort_key f known"
  define n where "n = length sp"
  define bw where "bw = (targetDate < f (sp ! 0))"
  define p1 where "p1 = (if bw then sp ! 0 else sp ! (n - 2))"
  define p2 where "p2 = (if bw then sp ! 1 else sp ! (n - 1))"
  define k where "k = real_of_int (extrapolationMaxChangePercent cfg) / 100"
  have len: "\<not> length known < 2"
    using assms by (auto simp: extrapolatePrice_def)
  then have n2: "2 \<le> n" unfolding n_def sp_def by simp
  have srt: "sorted (map f sp)" unfolding sp_def by (rule sorted_sort_key)
  have setsp: "set sp = set known" unfolding sp_def by simp
  have nth_mono: "f (sp ! i) \<le> f (sp ! j)" if "i \<le> j" "j < n" for i j
    using sorted_nth_mono [OF srt, of i j] that unfolding n_def by simp
  have nth_in: "sp ! i \<in> set known" if "i < n" for i
    using that nth_mem [of i sp] unfolding setsp n_def by simp
  have p1_in: "p1 \<in> set known" and p2_in: "p2 \<in> set known"
    using n2 nth_in [of 0] nth_in [of 1] nth_in [of "n - 2"] nth_in [of "n - 1"]
    unfolding p1_def p2_def by auto
  have le12: "f p1 \<le> f p2"
    unfolding p1_def p2_def using n2 nth_mono [of 0 1] nth_mono [of "n - 2" "n - 1"] by auto
  have unfold: "extrapolatePrice cfg getTime known targetDate =
      bind_res (usd_of p2) (\<lambda>usd2. bind_res (usd_of p1) (\<lambda>usd1.
        if f p2 - f p1 = 0
        then Inr \<lparr> res_usd = None, res_method = NoMethod, res_points = [] \<rparr>
        else Inr \<lparr> res_usd = Some (max (1 / 10000)
                      (max (usd2 - \<bar>usd2 * k\<bar>)
                        (min (usd2 + \<bar>usd2 * k\<bar>)
                          (usd2 + (usd2 - usd1) / real_of_int (f p2 - f p1)
                                    * real_of_int (targetDate - f p2))))),
                   res_method = Extrapolation, res_points = [p1, p2] \<rparr>))"
    using len
    unfolding extrapolatePrice_def Let_def p1_def p2_def bw_def n_def sp_def f_def k_def
    by simp
  obtain pr2 where pr2: "price p2 = Some pr2" "usd_of p2 = Inr (usd pr2)"
    using assms(1) unfolding unfold by (cases p2 rule: usd_of_cases) (auto simp: bind_res_def)
  obtain pr1 where pr1: "price p1 = Some pr1" "usd_of p1 = Inr (usd pr1)"
    using assms(1) unfolding unfold pr2 by (cases p1 rule: usd_of_cases) (auto simp: bind_res_def)
  have ne: "f p2 - f p1 \<noteq> 0"
    using assms unfolding unfold pr1 pr2 by (auto simp: bind_res_def)
  with le12 have lt: "f p1 < f p2" by simp
  define raw where "raw = usd pr2 + (usd pr2 - usd pr1) / real_of_int (f p2 - f p1)
                                    * real_of_int (targetDate - f p2)"
  have r: "r = \<lparr> res_usd = Some (max (1 / 10000)
                      (max (usd pr2 - \<bar>usd pr2 * k\<bar>) (min (usd pr2 + \<bar>usd pr2 * k\<bar>) raw))),
                 res_method = Extrapolation, res_points = [p1, p2] \<rparr>"
    using assms(1) ne unfolding unfold pr1 pr2 raw_def by (simp add: bind_res_def)
  then have u: "u = max (1 / 10000) (max (usd pr2 - \<bar>usd pr2 * k\<bar>) (min (usd pr2 + \<bar>usd pr2 * k\<bar>) raw))"
    and pts: "res_points r = [p1, p2]"
    using assms(2) by simp_all
  have fwd: "\<forall>p \<in> set known. f p \<le> f p2" if "\<forall>p \<in> set known. f p \<le> targetDate"
  proof
    fix p assume "p \<in> set known"
    then obtain i where i: "i < n" "sp ! i = p"
      unfolding setsp [symmetric] n_def by (auto simp: in_set_conv_nth)
    have "sp ! 0 \<in> set known" using n2 nth_in [of 0] by simp
    with that have "\<not> bw" unfolding bw_def by auto
    then have "p2 = sp ! (n - 1)" unfolding p2_def by simp
    with nth_mono [of i "n - 1"] i show "f p \<le> f p2" by simp
  qed
  have main: "u = max (1 / 10000) (max (usd pr2 - \<bar>usd pr2 * k\<bar>) (min (usd pr2 + \<bar>usd pr2 * k\<bar>) raw))
      \<and> 1 / 10000 \<le> u \<and> 0 < u
      \<and> (0 \<le> usd pr2 \<and> 0 \<le> k \<and> 1 / 10000 \<le> usd pr2 * (1 + k)
            \<longrightarrow> usd pr2 * (1 - k) \<le> u \<and> u \<le> usd pr2 * (1 + k))"
    using clamp_floor_bounds [of "usd pr2" k raw] unfolding u by blast
  show ?thesis
    unfolding Let_def
    using pts p1_in p2_in pr1(1) pr2(1) lt [unfolded f_def] fwd [unfolded f_def]
      main [unfolded raw_def k_def f_def]
    by blast
qed

lemma extrapolate_forward_run:
  "extrapolatePrice default_config sample_getTime
     [mk_doc token_a ''ethereum'' ''2024-01-01T00:00:00Z'' 10,
      mk_doc token_a ''ethereum'' ''2024-01-02T00:00:00Z'' 20]
     1704240000000
   = Inr \<lparr> res_usd = Some 30, res_method = Extrapolation,
           res_points = [mk_doc token_a ''ethereum'' ''2024-01-01T00:00:00Z'' 10,
                         mk_doc token_a ''ethereum'' ''2024-01-02T00:00:00Z'' 20] \<rparr>"
  by (simp add: extrapolatePrice_def Let_def timestamp_mk_doc price_mk_doc usd_of_def
      bind_res_def sample_times default_config_def)

lemma extrapolatePrice_clamp_forward:
  "extrapolatePrice default_config sample_getTime
     [mk_doc token_a ''ethereum'' ''2024-01-01T00:00:00Z'' 10,
      mk_doc token_a ''ethereum'' ''2024-01-02T00:00:00Z'' 20]
     1704240000000
   = Inr \<lparr> res_usd = Some 30, res_method = Extrapolation,
           res_points = [mk_doc token_a ''ethereum'' ''2024-01-01T00:00:00Z'' 10,
                         mk_doc token_a ''ethereum'' ''2024-01-02T00:00:00Z'' 20] \<rparr>
   \<and> (\<exists>p1 p2 pr1 pr2.
         [mk_doc token_a ''ethereum'' ''2024-01-01T00:00:00Z'' 10,
          mk_doc token_a ''ethereum'' ''2024-01-02T00:00:00Z'' 20] = [p1, p2]
         \<and> price p1 = Some pr1 \<and> price p2 = Some pr2
         \<and> usd pr2 * (1 - 1 / 2) \<le> 30 \<and> 30 \<le> usd pr2 * (1 + 1 / 2))"
proof -
  let ?ps = "[mk_doc token_a ''ethereum'' ''2024-01-01T00:00:00Z'' 10,
              mk_doc token_a ''ethereum'' ''2024-01-02T00:00:00Z'' 20]"
  let ?r = "\<lparr> res_usd = Some (30::real), res_method = Extrapolation, res_points = ?ps \<rparr>"
  have h1: "extrapolatePrice default_config sample_getTime ?ps 1704240000000 = Inr ?r"
    by (rule extrapolate_forward_run)
  have h2: "res_usd ?r = Some 30" by simp
  from extrapolatePrice_clamp [OF h1 h2] obtain p1 p2 pr1 pr2 where
    pts: "res_points ?r = [p1, p2]" and pr: "price p1 = Some pr1" "price p2 = Some pr2"
    and bnd: "0 \<le> usd pr2 \<and> 0 \<le> real_of_int (extrapolationMaxChangePercent default_config) / 100
              \<and> 1 / 10000 \<le> usd pr2 * (1 + real_of_int (extrapolationMaxChangePercent default_config) / 100)
            \<longrightarrow> usd pr2 * (1 - real_of_int (extrapolationMaxChangePercent default_config) / 100) \<le> 30
                \<and> 30 \<le> usd pr2 * (1 + real_of_int (extrapolationMaxChangePercent default_config) / 100)"
    unfolding Let_def by blast
  from pts have p2: "p2 = mk_doc token_a ''ethereum'' ''2024-01-02T00:00:00Z'' 20" by simp
  with pr have "usd pr2 = 20" by (auto simp: price_mk_doc)
  with bnd have "usd pr2 * (1 - 1 / 2) \<le> 30 \<and> 30 \<le> usd pr2 * (1 + 1 / 2)"
    by (simp add: default_config_def)
  with h1 pts pr show ?thesis by auto
qed

text \<open>
  C6, at an input where the code departs from it: the target lies before the known points.
  With a change limit of 10 percent and stored points priced 100 (twelve hours after the
  target) and 150 (a day after it), the engine returns the extrapolated price 135 with
  confidence 0.35. The backward branch of \<open>extrapolatePrice\<close> takes the two earliest
  points as \<open>p1\<close>, \<open>p2\<close> and, like the forward branch, clamps around \<open>p2\<close>: the
  interval \<open>[135, 165]\<close> is built around the later of the two, and the result is outside
  the interval \<open>[90, 110]\<close> around the nearest known point, where the claim puts it.
\<close>

theorem interpolatePrice_backward_clamp:
  "interpolatePrice config_k10 sample_getTime later_points_query ''2024-06-01T00:00:00Z''
     token_a ''ethereum'' ''2024-01-01T00:00:00Z''
   = Inr (Some \<lparr> ip_doc =
            \<lparr> doc_id = [], token = token_a, network = ''ethereum'',
              timestamp = ''2024-01-01T00:00:00Z'',
              price = Some \<lparr> usd = 135, lastUpdated = ''2024-06-01T00:00:00Z'' \<rparr>,
              source = [], interpolated = True, interpolationMethod = Some Extrapolation,
              confidence = Some (7 / 20), storedAt = None, createdAt = None,
              archivedAt = None, compressed = None \<rparr>,
            ip_dataPoints = later_points \<rparr>)
   \<and> \<bar>sample_getTime ''2024-01-01T00:00:00Z'' - sample_getTime ''2024-01-01T12:00:00Z''\<bar>
       < \<bar>sample_getTime ''2024-01-01T00:00:00Z'' - sample_getTime ''2024-01-02T00:00:00Z''\<bar>
   \<and> \<not> (100 * (1 - real_of_int (extrapolationMaxChangePercent config_k10) / 100) \<le> (135::real)
          \<and> (135::real) \<le> 100 * (1 + real_of_int (extrapolationMaxChangePercent config_k10) / 100))"
proof -
  have run: "interpolatePrice config_k10 sample_getTime later_points_query ''2024-06-01T00:00:00Z''
     token_a ''ethereum'' ''2024-01-01T00:00:00Z''
   = Inr (Some \<lparr> ip_doc =
            \<lparr> doc_id = [], token = token_a, network = ''ethereum'',
              timestamp = ''2024-01-01T00:00:00Z'',
              price = Some \<lparr> usd = 135, lastUpdated = ''2024-06-01T00:00:00Z'' \<rparr>,
              source = [], interpolated = True, interpolationMethod = Some Extrapolation,
              confidence = Some (7 / 20), storedAt = None, createdAt = None,
              archivedAt = None, compressed = None \<rparr>,
            ip_dataPoints = later_points \<rparr>)"
    by (simp add: interpolatePrice_def interpolatePrice_try_def extrapolatePrice_def
        calculateConfidence_def volatilityConfidence_def later_points_query_def later_points_def
        Let_def truthy_def mk_doc_def usd_of_def bind_res_def sample_times config_k10_def
        default_config_def)
  have rest: "\<bar>sample_getTime ''2024-01-01T00:00:00Z'' - sample_getTime ''2024-01-01T12:00:00Z''\<bar>
       < \<bar>sample_getTime ''2024-01-01T00:00:00Z'' - sample_getTime ''2024-01-02T00:00:00Z''\<bar>"
    "\<not> (100 * (1 - real_of_int (extrapolationMaxChangePercent config_k10) / 100) \<le> (135::real)
          \<and> (135::real) \<le> 100 * (1 + real_of_int (extrapolationMaxChangePercent config_k10) / 100))"
    by (simp_all add: sample_times config_k10_def default_config_def)
  from run rest show ?thesis by (intro conjI)
qed

theorem interpolatePrice_backward_clamp_witness:
  "interpolatePrice config_k10 sample_getTime later_points_query ''2024-06-01T00:00:00Z''
     token_a ''ethereum'' ''2024-01-01T00:00:00Z'' \<noteq> Inr None"
  using interpolatePrice_backward_clamp by simp

text \<open>
  C10. \<open>interpolatePrice\<close> always returns: its result is a synthesized record or
  \<open>null\<close>, never a thrown error; whatever the body of its \<open>try\<close> block throws (a
  rejected store query, a neighbour without its price object) becomes \<open>null\<close>.
\<close>

theorem interpolatePrice_total:
  "\<exists>r. interpolatePrice cfg getTime query now tok net ts = Inr r
       \<and> (case interpolatePrice_try cfg getTime query now tok net ts of
             Inl e \<Rightarrow> r = None
           | Inr x \<Rightarrow> r = x)"
  by (simp add: interpolatePrice_def split: sum.split)

theorem interpolatePrice_total_witness:
  "interpolatePrice_try default_config sample_getTime (\<lambda>tok net ts limit. Inl StoreError)
     ''2024-06-01T00:00:00Z'' token_a ''ethereum'' ''2024-01-02T00:00:00Z'' = Inl StoreError
   \<and> interpolatePrice default_config sample_getTime (\<lambda>tok net ts limit. Inl StoreError)
     ''2024-06-01T00:00:00Z'' token_a ''ethereum'' ''2024-01-02T00:00:00Z'' = Inr None"
  using interpolatePrice_total
    [of default_config sample_getTime "\<lambda>tok net ts limit. Inl StoreError"
        "''2024-06-01T00:00:00Z''" token_a "''ethereum''" "''2024-01-02T00:00:00Z''"]
  by (simp add: interpolatePrice_try_def bind_res_def)

lemma interpolatePrice_malformed_neighbour:
  "interpolatePrice_try default_config sample_getTime
     (\<lambda>tok net ts limit. Inr
        [(mk_doc token_a ''ethereum'' ''2024-01-01T00:00:00Z'' 10) \<lparr> price := None \<rparr>,
         mk_doc token_a ''ethereum'' ''2024-01-03T00:00:00Z'' 20])
     ''2024-06-01T00:00:00Z'' token_a ''ethereum'' ''2024-01-02T00:00:00Z'' = Inl TypeError
   \<and> interpolatePrice default_config sample_getTime
     (\<lambda>tok net ts limit. Inr
        [(mk_doc token_a ''ethereum'' ''2024-01-01T00:00:00Z'' 10) \<lparr> price := None \<rparr>,
         mk_doc token_a ''ethereum'' ''2024-01-03T00:00:00Z'' 20])
     ''2024-06-01T00:00:00Z'' token_a ''ethereum'' ''2024-01-02T00:00:00Z'' = Inr None"
  by (simp add: interpolatePrice_def interpolatePrice_try_def linearInterpolation_def Let_def
      truthy_def mk_doc_def usd_of_def bind_res_def sample_times default_config_def)

lemma interpolatePrice_scenario:
  "interpolatePrice default_config sample_getTime
     (\<lambda>tok net ts limit. Inr
        [mk_doc token_a ''ethereum'' ''2024-01-01T00:00:00Z'' 10,
         mk_doc token_a ''ethereum'' ''2024-01-03T00:00:00Z'' 20])
     ''2024-06-01T00:00:00Z'' token_a ''ethereum'' ''2024-01-02T00:00:00Z''
   = Inr (Some \<lparr> ip_doc =
            \<lparr> doc_id = [], token = token_a, network = ''ethereum'',
              timestamp = ''2024-01-02T00:00:00Z'',
              price = Some \<lparr> usd = 15, lastUpdated = ''2024-06-01T00:00:00Z'' \<rparr>,
              source = [], interpolated = True, interpolationMethod = Some Linear,
              confidence = Some (2 / 3), storedAt = None, createdAt = None,
              archivedAt = None, compressed = None \<rparr>,
            ip_dataPoints =
              [mk_doc token_a ''ethereum'' ''2024-01-01T00:00:00Z'' 10,
               mk_doc token_a ''ethereum'' ''2024-01-03T00:00:00Z'' 20] \<rparr>)"
  by (simp add: interpolatePrice_def interpolatePrice_try_def linearInterpolation_def
      calculateConfidence_def volatilityConfidence_def Let_def
      truthy_def mk_doc_def usd_of_def bind_res_def sample_times default_config_def)

section \<open>Properties of the oracle client\<close>

declare getTokenPriceWithRetry_from.simps [simp del]

lemma retry_from_beyond:
  "maxRetries < attempt \<Longrightarrow>
   getTokenPriceWithRetry_from cfg oracleCall maxRetries attempt = (Inr None, [])"
  by (subst getTokenPriceWithRetry_from.simps) simp

lemma retry_from_found:
  "attempt \<le> maxRetries \<Longrightarrow> oracleCall attempt = Inr (Some found) \<Longrightarrow>
   getTokenPriceWithRetry_from cfg oracleCall maxRetries attempt = (Inr (Some found), [Attempt attempt])"
  by (subst getTokenPriceWithRetry_from.simps) simp

lemma retry_from_null:
  "attempt \<le> maxRetries \<Longrightarrow> oracleCall attempt = Inr None \<Longrightarrow>
   getTokenPriceWithRetry_from cfg oracleCall maxRetries attempt =
     (fst (getTokenPriceWithRetry_from cfg oracleCall maxRetries (Suc attempt)),
      Attempt attempt # snd (getTokenPriceWithRetry_from cfg oracleCall maxRetries (Suc attempt)))"
  by (subst getTokenPriceWithRetry_from.simps) (simp add: split_beta)

lemma retry_from_last_throw:
  "oracleCall maxRetries = Inl e \<Longrightarrow>
   getTokenPriceWithRetry_from cfg oracleCall maxRetries maxRetries = (Inl e, [Attempt maxRetries])"
  by (subst getTokenPriceWithRetry_from.simps) simp

lemma retry_from_throw:
  "attempt < maxRetries \<Longrightarrow> oracleCall attempt = Inl e \<Longrightarrow>
   getTokenPriceWithRetry_from cfg oracleCall maxRetries attempt =
     (fst (getTokenPriceWithRetry_from cfg oracleCall maxRetries (Suc attempt)),
      Attempt attempt # Sleep (2 ^ attempt * alchemy_retryDelay cfg)
        # snd (getTokenPriceWithRetry_from cfg oracleCall maxRetries (Suc attempt)))"
  by (subst getTokenPriceWithRetry_from.simps) (simp add: split_beta)

lemma retry_from_cases [consumes 1, case_names found null last_throw throw]:
  assumes "(attempt::nat) \<le> maxRetries"
  obtains found where "oracleCall attempt = Inr (Some found)"
  | "oracleCall attempt = Inr None"
  | e where "oracleCall attempt = Inl e" "attempt = maxRetries"
  | e where "oracleCall attempt = Inl e" "attempt < maxRetries"
proof (cases "oracleCall attempt")
  case (Inl e)
  show ?thesis
  proof (cases "attempt = maxRetries")
    case True
    with Inl that(3) show ?thesis by blast
  next
    case False
    with assms have "attempt < maxRetries" by simp
    with Inl that(4) show ?thesis by blast
  qed
next
  case (Inr r)
  with that(1,2) show ?thesis by (cases r) auto
qed

lemma retry_from_head:
  assumes "attempt \<le> maxRetries"
  shows "\<exists>rest. snd (getTokenPriceWithRetry_from cfg oracleCall maxRetries attempt)
                  = Attempt attempt # rest"
  using assms
proof (cases rule: retry_from_cases [where oracleCall = oracleCall])
  case (found f)
  with assms show ?thesis by (simp add: retry_from_found)
next
  case null
  with assms show ?thesis by (simp add: retry_from_null)
next
  case (last_throw e)
  then show ?thesis by (simp add: retry_from_last_throw)
next
  case (throw e)
  then show ?thesis by (simp add: retry_from_throw)
qed

lemma retry_from_attempts:
  "\<exists>k. attempts_of (snd (getTokenPriceWithRetry_from cfg oracleCall maxRetries attempt))
          = [attempt ..< attempt + k]
       \<and> (attempt \<le> Suc maxRetries \<longrightarrow> attempt + k \<le> Suc maxRetries)"
proof (induction "Suc maxRetries - attempt" arbitrary: attempt)
  case 0
  then have "maxRetries < attempt" by simp
  then show ?case by (intro exI [of _ 0]) (simp add: retry_from_beyond)
next
  case (Suc n)
  then have le: "attempt \<le> maxRetries" and n: "n = Suc maxRetries - Suc attempt" by simp_all
  from Suc(1) [OF n] obtain k where
    k: "attempts_of (snd (getTokenPriceWithRetry_from cfg oracleCall maxRetries (Suc attempt)))
          = [Suc attempt ..< Suc attempt + k]"
       "Suc attempt + k \<le> Suc maxRetries"
    using le by auto
  have up: "attempt # [Suc attempt ..< Suc attempt + k] = [attempt ..< attempt + Suc k]"
    by (simp add: upt_rec)
  from le show ?case
  proof (cases rule: retry_from_cases [where oracleCall = oracleCall])
    case (found f)
    with le show ?thesis by (intro exI [of _ 1]) (simp add: retry_from_found)
  next
    case null
    with le k up show ?thesis by (intro exI [of _ "Suc k"]) (simp add: retry_from_null)
  next
    case (last_throw e)
    then show ?thesis by (intro exI [of _ 1]) (simp add: retry_from_last_throw)
  next
    case (throw e)
    with k up show ?thesis by (intro exI [of _ "Suc k"]) (simp add: retry_from_throw)
  qed
qed

lemma retry_from_after_null:
  assumes "Attempt a \<in> set (snd (getTokenPriceWithRetry_from cfg oracleCall maxRetries attempt))"
    and "a < maxRetries" and "oracleCall a = Inr None"
  shows "\<exists>pre post. snd (getTokenPriceWithRetry_from cfg oracleCall maxRetries attempt)
                        = pre @ Attempt a # Attempt (Suc a) # post"
  using assms(1)
proof (induction "Suc maxRetries - attempt" arbitrary: attempt)
  case 0
  then have "maxRetries < attempt" by simp
  with 0(2) show ?case by (simp add: retry_from_beyond)
next
  case (Suc n)
  let ?next = "snd (getTokenPriceWithRetry_from cfg oracleCall maxRetries (Suc attempt))"
  from Suc(2) have le: "attempt \<le> maxRetries" and n: "n = Suc maxRetries - Suc attempt" by simp_all
  have tail: "\<exists>pre post. xs @ ?next = pre @ Attempt a # Attempt (Suc a) # post"
    if "Attempt a \<in> set ?next" for xs
  proof -
    from Suc(1) [OF n that] obtain pre post where "?next = pre @ Attempt a # Attempt (Suc a) # post"
      by blast
    then have "xs @ ?next = (xs @ pre) @ Attempt a # Attempt (Suc a) # post" by simp
    then show ?thesis by blast
  qed
  from le show ?case
  proof (cases rule: retry_from_cases [where oracleCall = oracleCall])
    case (found f)
    with le Suc(3) assms(3) show ?thesis by (auto simp: retry_from_found)
  next
    case null
    show ?thesis
    proof (cases "a = attempt")
      case True
      with assms(2) have "Suc attempt \<le> maxRetries" by simp
      from retry_from_head [OF this, of cfg oracleCall] obtain rest where
        "?next = Attempt (Suc attempt) # rest" by blast
      with le null True have
        "snd (getTokenPriceWithRetry_from cfg oracleCall maxRetries attempt)
           = [] @ Attempt a # Attempt (Suc a) # rest"
        by (simp add: retry_from_null)
      then show ?thesis by blast
    next
      case False
      with le null Suc(3) have "Attempt a \<in> set ?next" by (simp add: retry_from_null)
      from tail [OF this, of "[Attempt attempt]"] le null show ?thesis
        by (simp add: retry_from_null)
    qed
  next
    case (last_throw e)
    with Suc(3) assms(2) show ?thesis by (auto simp: retry_from_last_throw)
  next
    case (throw e)
    with Suc(3) assms(3) have "Attempt a \<in> set ?next" by (auto simp: retry_from_throw)
    from tail [OF this, of "[Attempt attempt, Sleep (2 ^ attempt * alchemy_retryDelay cfg)]"]
      throw show ?thesis by (simp add: retry_from_throw)
  qed
qed

lemma retry_from_after_throw:
  assumes "Attempt a \<in> set (snd (getTokenPriceWithRetry_from cfg oracleCall maxRetries attempt))"
    and "a < maxRetries" and "oracleCall a = Inl e"
  shows "\<exists>pre post. snd (getTokenPriceWithRetry_from cfg oracleCall maxRetries attempt)
           = pre @ Attempt a # Sleep (2 ^ a * alchemy_retryDelay cfg) # Attempt (Suc a) # post"
  using assms(1)
proof (induction "Suc maxRetries - attempt" arbitrary: attempt)
  case 0
  then have "maxRetries < attempt" by simp
  with 0(2) show ?case by (simp add: retry_from_beyond)
next
  case (Suc n)
  let ?next = "snd (getTokenPriceWithRetry_from cfg oracleCall maxRetries (Suc attempt))"
  from Suc(2) have le: "attempt \<le> maxRetries" and n: "n = Suc maxRetries - Suc attempt" by simp_all
  have tail: "\<exists>pre post. xs @ ?next
                = pre @ Attempt a # Sleep (2 ^ a * alchemy_retryDelay cfg) # Attempt (Suc a) # post"
    if "Attempt a \<in> set ?next" for xs
  proof -
    from Suc(1) [OF n that] obtain pre post where
      "?next = pre @ Attempt a # Sleep (2 ^ a * alchemy_retryDelay cfg) # Attempt (Suc a) # post"
      by blast
    then have "xs @ ?next
      = (xs @ pre) @ Attempt a # Sleep (2 ^ a * alchemy_retryDelay cfg) # Attempt (Suc a) # post"
      by simp
    then show ?thesis by blast
  qed
  from le show ?case
  proof (cases rule: retry_from_cases [where oracleCall = oracleCall])
    case (found f)
    with le Suc(3) assms(3) show ?thesis by (auto simp: retry_from_found)
  next
    case null
    with le Suc(3) assms(3) have "Attempt a \<in> set ?next" by (auto simp: retry_from_null)
    from tail [OF this, of "[Attempt attempt]"] le null show ?thesis
      by (simp add: retry_from_null)
  next
    case (last_throw e')
    with Suc(3) assms(2) show ?thesis by (auto simp: retry_from_last_throw)
  next
    case (throw e')
    show ?thesis
    proof (cases "a = attempt")
      case True
      with assms(2) have "Suc attempt \<le> maxRetries" by simp
      from retry_from_head [OF this, of cfg oracleCall] obtain rest where
        "?next = Attempt (Suc attempt) # rest" by blast
      with throw True have
        "snd (getTokenPriceWithRetry_from cfg oracleCall maxRetries attempt)
           = [] @ Attempt a # Sleep (2 ^ a * alchemy_retryDelay cfg) # Attempt (Suc a) # rest"
        by (simp add: retry_from_throw)
      then show ?thesis by blast
    next
      case False
      with throw Suc(3) have "Attempt a \<in> set ?next" by (simp add: retry_from_throw)
      from tail [OF this, of "[Attempt attempt, Sleep (2 ^ attempt * alchemy_retryDelay cfg)]"]
        throw show ?thesis by (simp add: retry_from_throw)
    qed
  qed
qed

lemma retry_from_sleep:
  assumes "Sleep d \<in> set (snd (getTokenPriceWithRetry_from cfg oracleCall maxRetries attempt))"
  shows "\<exists>a e. Attempt a \<in> set (snd (getTokenPriceWithRetry_from cfg oracleCall maxRetries attempt))
            \<and> oracleCall a = Inl e \<and> a < maxRetries \<and> d = 2 ^ a * alchemy_retryDelay cfg"
  using assms
proof (induction "Suc maxRetries - attempt" arbitrary: attempt)
  case 0
  then have "maxRetries < attempt" by simp
  with 0(2) show ?case by (simp add: retry_from_beyond)
next
  case (Suc n)
  let ?next = "snd (getTokenPriceWithRetry_from cfg oracleCall maxRetries (Suc attempt))"
  from Suc(2) have le: "attempt \<le> maxRetries" and n: "n = Suc maxRetries - Suc attempt" by simp_all
  from le show ?case
  proof (cases rule: retry_from_cases [where oracleCall = oracleCall])
    case (found f)
    with le Suc(3) show ?thesis by (auto simp: retry_from_found)
  next
    case null
    with le Suc(3) have "Sleep d \<in> set ?next" by (auto simp: retry_from_null)
    from Suc(1) [OF n this] le null show ?thesis by (auto simp: retry_from_null)
  next
    case (last_throw e)
    with Suc(3) show ?thesis by (auto simp: retry_from_last_throw)
  next
    case (throw e)
    show ?thesis
    proof (cases "d = 2 ^ attempt * alchemy_retryDelay cfg")
      case True
      with throw show ?thesis by (auto simp: retry_from_throw)
    next
      case False
      with throw Suc(3) have "Sleep d \<in> set ?next" by (auto simp: retry_from_throw)
      from Suc(1) [OF n this] throw show ?thesis by (auto simp: retry_from_throw)
    qed
  qed
qed


lemma retry_from_last:
  assumes "Attempt a \<in> set (snd (getTokenPriceWithRetry_from cfg oracleCall maxRetries attempt))"
    and "a = maxRetries \<or> (\<exists>found. oracleCall a = Inr (Some found))"
  shows "fst (getTokenPriceWithRetry_from cfg oracleCall maxRetries attempt) = oracleCall a
         \<and> (\<exists>pre. snd (getTokenPriceWithRetry_from cfg oracleCall maxRetries attempt)
                     = pre @ [Attempt a])"
  using assms(1)
proof (induction "Suc maxRetries - attempt" arbitrary: attempt)
  case 0
  then have "maxRetries < attempt" by simp
  with 0(2) show ?case by (simp add: retry_from_beyond)
next
  case (Suc n)
  let ?next = "getTokenPriceWithRetry_from cfg oracleCall maxRetries (Suc attempt)"
  from Suc(2) have le: "attempt \<le> maxRetries" and n: "n = Suc maxRetries - Suc attempt" by simp_all
  have tail: "fst ?next = oracleCall a \<and> (\<exists>pre. xs @ snd ?next = pre @ [Attempt a])"
    if "Attempt a \<in> set (snd ?next)" for xs
  proof -
    from Suc(1) [OF n that] obtain pre where
      "fst ?next = oracleCall a" "snd ?next = pre @ [Attempt a]" by blast
    then have "fst ?next = oracleCall a" "xs @ snd ?next = (xs @ pre) @ [Attempt a]" by simp_all
    then show ?thesis by blast
  qed
  from le show ?case
  proof (cases rule: retry_from_cases [where oracleCall = oracleCall])
    case (found f)
    with le Suc(3) show ?thesis by (simp add: retry_from_found)
  next
    case null
    show ?thesis
    proof (cases "a = attempt")
      case True
      with null assms(2) have "attempt = maxRetries" by simp
      with null True show ?thesis by (simp add: retry_from_null retry_from_beyond)
    next
      case False
      with le null Suc(3) have "Attempt a \<in> set (snd ?next)" by (simp add: retry_from_null)
      from tail [OF this, of "[Attempt attempt]"] le null show ?thesis
        by (simp add: retry_from_null split_beta)
    qed
  next
    case (last_throw e)
    with Suc(3) show ?thesis by (simp add: retry_from_last_throw)
  next
    case (throw e)
    show ?thesis
    proof (cases "a = attempt")
      case True
      with throw assms(2) show ?thesis by simp
    next
      case False
      with throw Suc(3) have "Attempt a \<in> set (snd ?next)" by (simp add: retry_from_throw)
      from tail [OF this, of "[Attempt attempt, Sleep (2 ^ attempt * alchemy_retryDelay cfg)]"]
        throw show ?thesis by (simp add: retry_from_throw split_beta)
    qed
  qed
qed

text \<open>
  C4 (amended). \<open>getTokenPriceWithRetry\<close> calls \<open>getTokenPrice\<close> at most
  \<open>maxRetries\<close> times, at attempts 1, 2, ... in order, starting with attempt 1 whenever
  \<open>maxRetries\<close> is at least 1; with \<open>maxRetries = 0\<close> it makes no attempt and
  returns \<open>null\<close>. An attempt \<open>a < maxRetries\<close> that throws is followed by a wait
  of \<open>2 ^ a * retryDelay\<close> milliseconds and then by attempt \<open>a + 1\<close>, and there
  is no other wait. A \<open>null\<close> return at an attempt \<open>a < maxRetries\<close> is followed
  at once, with no wait, by attempt \<open>a + 1\<close>: a \<open>null\<close> return is retried as
  well. The call ends with the first attempt that returns a price, or else with attempt
  \<open>maxRetries\<close>, and its outcome is that attempt's outcome: the price it returned, the
  error it threw (rethrown), or \<open>null\<close>.
\<close>

theorem getTokenPriceWithRetry_trace:
  "let r = fst (getTokenPriceWithRetry cfg oracleCall maxRetries);
       evs = snd (getTokenPriceWithRetry cfg oracleCall maxRetries)
   in (maxRetries = 0 \<longrightarrow> r = Inr None \<and> evs = [])
      \<and> (0 < maxRetries \<longrightarrow> (\<exists>rest. evs = Attempt 1 # rest))
      \<and> (\<exists>k \<le> maxRetries. attempts_of evs = [1 ..< Suc k])
      \<and> (\<forall>d. Sleep d \<in> set evs \<longrightarrow>
            (\<exists>a e pre post. evs = pre @ Attempt a # Sleep d # Attempt (Suc a) # post
                \<and> oracleCall a = Inl e \<and> a < maxRetries
                \<and> d = 2 ^ a * alchemy_retryDelay cfg))
      \<and> (\<forall>a e. Attempt a \<in> set evs \<and> a < maxRetries \<and> oracleCall a = Inl e \<longrightarrow>
            (\<exists>pre post. evs = pre @ Attempt a # Sleep (2 ^ a * alchemy_retryDelay cfg)
                                 # Attempt (Suc a) # post))
      \<and> (\<forall>a. Attempt a \<in> set evs \<and> a < maxRetries \<and> oracleCall a = Inr None \<longrightarrow>
            (\<exists>pre post. evs = pre @ Attempt a # Attempt (Suc a) # post))
      \<and> (\<forall>a. Attempt a \<in> set evs
               \<and> (a = maxRetries \<or> (\<exists>found. oracleCall a = Inr (Some found))) \<longrightarrow>
            r = oracleCall a \<and> (\<exists>pre. evs = pre @ [Attempt a]))"
proof -
  let ?run = "getTokenPriceWithRetry_from cfg oracleCall maxRetries 1"
  have p0: "fst ?run = Inr None \<and> snd ?run = []" if "maxRetries = 0"
    using that by (simp add: retry_from_beyond)
  have p0': "\<exists>rest. snd ?run = Attempt 1 # rest" if "0 < maxRetries"
    using retry_from_head [of 1 maxRetries cfg oracleCall] that by simp
  from retry_from_attempts [where cfg = cfg and oracleCall = oracleCall and maxRetries = maxRetries and attempt = 1] obtain k where
    k: "attempts_of (snd ?run) = [1 ..< 1 + k]" "1 + k \<le> Suc maxRetries" by auto
  then have p1: "\<exists>k \<le> maxRetries. attempts_of (snd ?run) = [1 ..< Suc k]"
    by (intro exI [of _ k]) simp
  have p2: "\<exists>a e pre post. snd ?run = pre @ Attempt a # Sleep d # Attempt (Suc a) # post
               \<and> oracleCall a = Inl e \<and> a < maxRetries \<and> d = 2 ^ a * alchemy_retryDelay cfg"
    if "Sleep d \<in> set (snd ?run)" for d
  proof -
    from retry_from_sleep [OF that] obtain a e where
      a: "Attempt a \<in> set (snd ?run)" "oracleCall a = Inl e" "a < maxRetries"
         "d = 2 ^ a * alchemy_retryDelay cfg" by blast
    from retry_from_after_throw [OF a(1,3,2)] a show ?thesis by blast
  qed
  have p3: "\<exists>pre post. snd ?run = pre @ Attempt a # Sleep (2 ^ a * alchemy_retryDelay cfg)
                                 # Attempt (Suc a) # post"
    if "Attempt a \<in> set (snd ?run)" "a < maxRetries" "oracleCall a = Inl e" for a e
    using that by (rule retry_from_after_throw)
  have p4: "\<exists>pre post. snd ?run = pre @ Attempt a # Attempt (Suc a) # post"
    if "Attempt a \<in> set (snd ?run)" "a < maxRetries" "oracleCall a = Inr None" for a
    using that by (rule retry_from_after_null)
  have p5: "fst ?run = oracleCall a \<and> (\<exists>pre. snd ?run = pre @ [Attempt a])"
    if "Attempt a \<in> set (snd ?run)" "a = maxRetries \<or> (\<exists>found. oracleCall a = Inr (Some found))" for a
    using that by (rule retry_from_last)
  show ?thesis
    unfolding Let_def getTokenPriceWithRetry_def
    using p0 p0' p1 p2 p3 p4 p5 by blast
qed

lemma retry_step_null:
  assumes "attempt \<le> maxRetries" and "oracleCall attempt = Inr None" and "nxt = Suc attempt"
    and "getTokenPriceWithRetry_from cfg oracleCall maxRetries nxt = (r, evs)"
  shows "getTokenPriceWithRetry_from cfg oracleCall maxRetries attempt = (r, Attempt attempt # evs)"
  using assms by (simp add: retry_from_null)

lemma retry_step_throw:
  assumes "attempt < maxRetries" and "oracleCall attempt = Inl e" and "nxt = Suc attempt"
    and "getTokenPriceWithRetry_from cfg oracleCall maxRetries nxt = (r, evs)"
    and "d = 2 ^ attempt * alchemy_retryDelay cfg"
  shows "getTokenPriceWithRetry_from cfg oracleCall maxRetries attempt
           = (r, Attempt attempt # Sleep d # evs)"
  using assms by (simp add: retry_from_throw)

lemma default_retryDelay: "alchemy_retryDelay default_config = 1000"
  by (simp add: default_config_def)

lemma default_maxRetries: "alchemy_maxRetries default_config = 3"
  by (simp add: default_config_def)

lemma throw_null_found_run:
  "getTokenPriceWithRetry default_config throw_null_found 3
     = (Inr (Some (mk_doc token_a ''ethereum'' ''2024-01-01T00:00:00Z'' 10)),
        [Attempt 1, Sleep 2000, Attempt 2, Attempt 3])"
proof -
  have 3: "getTokenPriceWithRetry_from default_config throw_null_found 3 3
             = (Inr (Some (mk_doc token_a ''ethereum'' ''2024-01-01T00:00:00Z'' 10)), [Attempt 3])"
    by (rule retry_from_found) (simp_all add: throw_null_found_def)
  have 2: "getTokenPriceWithRetry_from default_config throw_null_found 3 2
             = (Inr (Some (mk_doc token_a ''ethereum'' ''2024-01-01T00:00:00Z'' 10)),
                [Attempt 2, Attempt 3])"
    by (rule retry_step_null [OF _ _ _ 3]) (simp_all add: throw_null_found_def)
  have 1: "getTokenPriceWithRetry_from default_config throw_null_found 3 1
             = (Inr (Some (mk_doc token_a ''ethereum'' ''2024-01-01T00:00:00Z'' 10)),
                [Attempt 1, Sleep 2000, Attempt 2, Attempt 3])"
    by (rule retry_step_throw [OF _ _ _ 2, where e = OracleError])
       (simp_all add: throw_null_found_def default_retryDelay)
  then show ?thesis by (simp only: getTokenPriceWithRetry_def)
qed

theorem getTokenPriceWithRetry_trace_witness:
  "getTokenPriceWithRetry default_config throw_null_found 3
     = (Inr (Some (mk_doc token_a ''ethereum'' ''2024-01-01T00:00:00Z'' 10)),
        [Attempt 1, Sleep 2000, Attempt 2, Attempt 3])
   \<and> (\<exists>pre post. [Attempt 1, Sleep 2000, Attempt 2, Attempt 3]
                     = pre @ Attempt 1 # Sleep (2 ^ 1 * alchemy_retryDelay default_config)
                           # Attempt (Suc 1) # post)
   \<and> (\<exists>pre post. [Attempt 1, Sleep 2000, Attempt 2, Attempt 3]
                     = pre @ Attempt 2 # Attempt (Suc 2) # post)
   \<and> (\<exists>a e pre post. [Attempt 1, Sleep 2000, Attempt 2, Attempt 3]
                     = pre @ Attempt a # Sleep 2000 # Attempt (Suc a) # post
         \<and> throw_null_found a = Inl e \<and> a < 3
         \<and> (2000::nat) = 2 ^ a * alchemy_retryDelay default_config)
   \<and> Inr (Some (mk_doc token_a ''ethereum'' ''2024-01-01T00:00:00Z'' 10)) = throw_null_found 3
   \<and> (\<exists>pre. [Attempt 1, Sleep 2000, Attempt 2, Attempt 3] = pre @ [Attempt 3])
   \<and> (\<exists>rest. [Attempt 1, Sleep 2000, Attempt 2, Attempt 3] = Attempt 1 # rest)
   \<and> fst (getTokenPriceWithRetry default_config throw_null_found 0) = Inr None
   \<and> snd (getTokenPriceWithRetry default_config throw_null_found 0) = []"
proof -
  let ?evs = "[Attempt 1, Sleep 2000, Attempt 2, Attempt 3]"
  note t = getTokenPriceWithRetry_trace [of default_config throw_null_found 3,
      unfolded Let_def throw_null_found_run snd_conv fst_conv]
  note t3 = t [THEN conjunct2, THEN conjunct2, THEN conjunct2]
  from t3 [THEN conjunct1, rule_format, of 2000]
  have s: "\<exists>a e pre post. ?evs = pre @ Attempt a # Sleep 2000 # Attempt (Suc a) # post
         \<and> throw_null_found a = Inl e \<and> a < 3
         \<and> (2000::nat) = 2 ^ a * alchemy_retryDelay default_config"
    by (simp add: default_retryDelay)
  from t3 [THEN conjunct2, THEN conjunct1, rule_format, of 1 OracleError]
  have th: "\<exists>pre post. ?evs = pre @ Attempt 1 # Sleep (2 ^ 1 * alchemy_retryDelay default_config)
                           # Attempt (Suc 1) # post"
    by (simp add: throw_null_found_def)
  from t3 [THEN conjunct2, THEN conjunct2, THEN conjunct1, rule_format, of 2]
  have n: "\<exists>pre post. ?evs = pre @ Attempt 2 # Attempt (Suc 2) # post"
    by (simp add: throw_null_found_def)
  from t3 [THEN conjunct2, THEN conjunct2, THEN conjunct2, rule_format, of 3]
  have l: "Inr (Some (mk_doc token_a ''ethereum'' ''2024-01-01T00:00:00Z'' 10)) = throw_null_found 3
           \<and> (\<exists>pre. ?evs = pre @ [Attempt 3])"
    by simp
  from t [THEN conjunct2, THEN conjunct1]
  have f: "\<exists>rest. ?evs = Attempt 1 # rest" by simp
  from getTokenPriceWithRetry_trace [where maxRetries = 0 and cfg = default_config
      and oracleCall = throw_null_found, unfolded Let_def,
      THEN conjunct1]
  have z: "fst (getTokenPriceWithRetry default_config throw_null_found 0) = Inr None"
    "snd (getTokenPriceWithRetry default_config throw_null_found 0) = []"
    by simp_all
  from th n s l f z show ?thesis unfolding throw_null_found_run by (intro conjI refl) simp_all
qed

text \<open>
  C4 as stated fails: with an oracle that returns \<open>null\<close> every time and the default
  \<open>maxRetries = 3\<close>, the wrapper makes three attempts, not one, before it returns
  \<open>null\<close>.
\<close>

theorem getTokenPriceWithRetry_null_counterexample:
  "getTokenPriceWithRetry default_config always_null (alchemy_maxRetries default_config)
     = (Inr None, [Attempt 1, Attempt 2, Attempt 3])"
proof -
  have 4: "getTokenPriceWithRetry_from default_config always_null 3 4 = (Inr None, [])"
    by (rule retry_from_beyond) simp
  have 3: "getTokenPriceWithRetry_from default_config always_null 3 3 = (Inr None, [Attempt 3])"
    by (rule retry_step_null [OF _ _ _ 4]) (simp_all add: always_null_def)
  have 2: "getTokenPriceWithRetry_from default_config always_null 3 2
             = (Inr None, [Attempt 2, Attempt 3])"
    by (rule retry_step_null [OF _ _ _ 3]) (simp_all add: always_null_def)
  have 1: "getTokenPriceWithRetry_from default_config always_null 3 1
             = (Inr None, [Attempt 1, Attempt 2, Attempt 3])"
    by (rule retry_step_null [OF _ _ _ 2]) (simp_all add: always_null_def)
  then show ?thesis by (simp only: getTokenPriceWithRetry_def default_maxRetries)
qed

section \<open>Properties of the durable store\<close>

lemma lower_char_A: "lower_char CHR ''A'' = CHR ''a''"
  by code_simp

lemma lower_test: "toLowerCase token_A_upper = token_a"
  by (simp add: toLowerCase_def lower_char_A token_A_upper_def token_a_def)
     (simp add: lower_char_def)

lemma lower_token_a: "toLowerCase token_a = token_a"
  by (simp add: toLowerCase_def lower_char_def token_a_def Let_def)

lemma find_unique:
  assumes "y \<in> set xs" and "P y" and "\<And>x. x \<in> set xs \<Longrightarrow> P x \<Longrightarrow> x = y"
  shows "find P xs = Some y"
  using assms
proof (induction xs)
  case Nil
  then show ?case by simp
next
  case (Cons a xs)
  show ?case
  proof (cases "P a")
    case True
    with Cons.prems(3) [of a] have "a = y" by simp
    with True show ?thesis by simp
  next
    case False
    with Cons.prems(1,2) have "y \<in> set xs" by auto
    from Cons.IH [OF this Cons.prems(2)] Cons.prems(3) False show ?thesis by simp
  qed
qed

lemma price_document_fields [simp]:
  "token (price_document now p) = token p"
  "network (price_document now p) = network p"
  "timestamp (price_document now p) = timestamp p"
  "price (price_document now p) = price p"
  "doc_id (price_document now p) = token p @ ''_'' @ network p @ ''_'' @
       (if truthy (timestamp p) then timestamp p else ''current'')"
  by (simp_all add: price_document_def)



lemma storeTokenPrice_then_get:
  assumes "storeTokenPrice now R d = Inr d'"
    and "token R = toLowerCase tok" and "truthy (timestamp R)"
  shows "getTokenPrice d' tok (network R) (timestamp R) = Some (price_document now R)"
proof -
  define document where "document = price_document now R"
  define P where "P = (\<lambda>x::price_doc. token x = token R \<and> network x = network R
                                        \<and> timestamp x = timestamp R)"
  have key: "P x \<longleftrightarrow> same_key x document" for x
    unfolding P_def same_key_def document_def by simp
  have Pdoc: "P document" unfolding P_def document_def by simp
  have store: "replaceOne_upsert (prices d) document = Inr (prices d')"
    using assms(1,3) unfolding storeTokenPrice_def Let_def document_def price_document_def
    by (auto split: sum.splits)
  have noclash: "\<not> list_ex (\<lambda>x. doc_id x \<noteq> doc_id document \<and> same_key x document) (prices d)"
    using store unfolding replaceOne_upsert_def by (auto split: if_splits)
  then have old: "doc_id x = doc_id document" if "x \<in> set (prices d)" "P x" for x
    using that key [of x] unfolding list_ex_iff by auto
  have mem: "document \<in> set (prices d')"
    and uniq: "\<And>x. x \<in> set (prices d') \<Longrightarrow> P x \<Longrightarrow> x = document"
  proof -
    show "document \<in> set (prices d')"
    proof (cases "list_ex (\<lambda>x. doc_id x = doc_id document) (prices d)")
      case True
      then obtain z where z: "z \<in> set (prices d)" "doc_id z = doc_id document"
        unfolding list_ex_iff by auto
      let ?f = "\<lambda>x. if doc_id x = doc_id document then document else x"
      from True noclash store have eq: "prices d' = map ?f (prices d)"
        unfolding replaceOne_upsert_def by simp
      from z(1) have "?f z \<in> ?f ` set (prices d)" by (rule imageI)
      moreover from z(2) have "?f z = document" by simp
      ultimately show ?thesis unfolding eq set_map by simp
    next
      case False
      with noclash store have "prices d' = prices d @ [document]"
        unfolding replaceOne_upsert_def by simp
      then show ?thesis by simp
    qed
    fix x assume x: "x \<in> set (prices d')" "P x"
    show "x = document"
    proof (cases "list_ex (\<lambda>x. doc_id x = doc_id document) (prices d)")
      case True
      with noclash store have
        "prices d' = map (\<lambda>x. if doc_id x = doc_id document then document else x) (prices d)"
        unfolding replaceOne_upsert_def by simp
      with x(1) obtain z where z: "z \<in> set (prices d)"
        "x = (if doc_id z = doc_id document then document else z)" by auto
      show ?thesis
      proof (cases "doc_id z = doc_id document")
        case True
        with z show ?thesis by simp
      next
        case False
        with z have "x = z" by simp
        with old [OF z(1)] x(2) False show ?thesis by simp
      qed
    next
      case False
      with noclash store have "prices d' = prices d @ [document]"
        unfolding replaceOne_upsert_def by simp
      with x(1) have "x \<in> set (prices d) \<or> x = document" by auto
      moreover have "x \<notin> set (prices d)"
      proof
        assume "x \<in> set (prices d)"
        from old [OF this x(2)] this False show False unfolding list_ex_iff by auto
      qed
      ultimately show ?thesis by simp
    qed
  qed
  have "find P (prices d') = Some document"
    using mem Pdoc uniq by (rule find_unique)
  then show ?thesis
    using assms(2,3) unfolding getTokenPrice_def P_def document_def by simp
qed




lemma storeTokenPrice_roundtrip_lowercase:
  assumes "storeTokenPrice now R d = Inr d'"
    and "toLowerCase (token R) = token R" and "truthy (timestamp R)"
  shows "getTokenPrice d' (token R) (network R) (timestamp R)
           = Some (R \<lparr> storedAt := Some now,
                       doc_id := token R @ ''_'' @ network R @ ''_'' @ timestamp R \<rparr>)"
  using storeTokenPrice_then_get [OF assms(1) assms(2) [symmetric] assms(3)] assms(3)
  by (simp add: price_document_def)

text \<open>
  C3, evaluated at a record whose token is spelled with capital letters (a spelling the
  token pattern accepts). \<open>storeTokenPrice\<close> stores the token as given and builds the
  \<open>_id\<close> from it, while \<open>getTokenPrice\<close> looks the lower-cased token up: after
  storing the record in an empty store, reading it back by its own token, network and
  timestamp finds nothing. The lemma above shows the round trip for lower-case tokens.
\<close>

theorem storeTokenPrice_uppercase_lost:
  "storeTokenPrice 0 (mk_doc token_A_upper ''ethereum'' ''2024-01-01T00:00:00Z'' 1) empty_db
     = Inr \<lparr> prices = [(mk_doc token_A_upper ''ethereum'' ''2024-01-01T00:00:00Z'' 1)
                         \<lparr> storedAt := Some 0,
                           doc_id := token_A_upper @ ''_ethereum_2024-01-01T00:00:00Z'' \<rparr>],
             tokens = [], archived = [] \<rparr>
   \<and> getTokenPrice
        \<lparr> prices = [(mk_doc token_A_upper ''ethereum'' ''2024-01-01T00:00:00Z'' 1)
                     \<lparr> storedAt := Some 0,
                       doc_id := token_A_upper @ ''_ethereum_2024-01-01T00:00:00Z'' \<rparr>],
          tokens = [], archived = [] \<rparr>
        token_A_upper ''ethereum'' ''2024-01-01T00:00:00Z'' = None"
proof -
  have ne: "token_A_upper \<noteq> token_a" by (simp add: token_A_upper_def token_a_def)
  have s: "storeTokenPrice 0 (mk_doc token_A_upper ''ethereum'' ''2024-01-01T00:00:00Z'' 1) empty_db
     = Inr \<lparr> prices = [(mk_doc token_A_upper ''ethereum'' ''2024-01-01T00:00:00Z'' 1)
                         \<lparr> storedAt := Some 0,
                           doc_id := token_A_upper @ ''_ethereum_2024-01-01T00:00:00Z'' \<rparr>],
             tokens = [], archived = [] \<rparr>"
    by (simp add: storeTokenPrice_def replaceOne_upsert_def empty_db_def mk_doc_def truthy_def
        Let_def)
  have g: "getTokenPrice
        \<lparr> prices = [(mk_doc token_A_upper ''ethereum'' ''2024-01-01T00:00:00Z'' 1)
                     \<lparr> storedAt := Some 0,
                       doc_id := token_A_upper @ ''_ethereum_2024-01-01T00:00:00Z'' \<rparr>],
          tokens = [], archived = [] \<rparr>
        token_A_upper ''ethereum'' ''2024-01-01T00:00:00Z'' = None"
    using ne by (simp add: getTokenPrice_def truthy_def lower_test mk_doc_def)
  from s g show ?thesis by (rule conjI)
qed

lemma ids_step:
  assumes "i \<notin> set cs"
  shows "distinct js \<and> set js \<inter> set (cs @ [i]) = {}
     \<longleftrightarrow> distinct (i # js) \<and> set (i # js) \<inter> set cs = {}"
  using assms by auto

lemma insertMany_ok_iff:
  "snd (insertMany coll xs) = None \<longleftrightarrow>
     distinct (map doc_id xs) \<and> set (map doc_id xs) \<inter> set (map doc_id coll) = {}"
proof (induction xs arbitrary: coll)
  case Nil
  show ?case by simp
next
  case (Cons x xs)
  show ?case
  proof (cases "list_ex (\<lambda>y. doc_id y = doc_id x) coll")
    case True
    then obtain y where "y \<in> set coll" "doc_id y = doc_id x"
      by (auto simp: list_ex_iff)
    then have "doc_id x \<in> set (map doc_id coll)"
      unfolding set_map by (metis imageI)
    moreover from True have "snd (insertMany coll (x # xs)) = Some DuplicateKey" by simp
    ultimately show ?thesis by simp
  next
    case False
    then have notin: "doc_id x \<notin> set (map doc_id coll)" by (auto simp: list_ex_iff)
    from False have "snd (insertMany coll (x # xs)) = snd (insertMany (coll @ [x]) xs)" by simp
    then have "snd (insertMany coll (x # xs)) = None \<longleftrightarrow>
        distinct (map doc_id xs) \<and> set (map doc_id xs) \<inter> set (map doc_id (coll @ [x])) = {}"
      by (simp only: Cons)
    also have "\<dots> \<longleftrightarrow> distinct (map doc_id (x # xs))
        \<and> set (map doc_id (x # xs)) \<inter> set (map doc_id coll) = {}"
      using ids_step [OF notin, of "map doc_id xs"] by (simp only: list.map map_append)
    finally show ?thesis .
  qed
qed

lemma insertMany_prefix:
  "\<exists>k \<le> length xs. fst (insertMany coll xs) = coll @ take k xs
       \<and> (snd (insertMany coll xs) \<noteq> None \<longrightarrow> k < length xs)
       \<and> (snd (insertMany coll xs) = None \<longrightarrow> k = length xs)"
proof (induction xs arbitrary: coll)
  case Nil
  then show ?case by simp
next
  case (Cons x xs)
  show ?case
  proof (cases "list_ex (\<lambda>y. doc_id y = doc_id x) coll")
    case True
    then show ?thesis by (intro exI [of _ 0]) simp
  next
    case False
    from Cons [of "coll @ [x]"] obtain k where
      k: "k \<le> length xs" "fst (insertMany (coll @ [x]) xs) = (coll @ [x]) @ take k xs"
         "snd (insertMany (coll @ [x]) xs) \<noteq> None \<longrightarrow> k < length xs"
         "snd (insertMany (coll @ [x]) xs) = None \<longrightarrow> k = length xs" by auto
    with False show ?thesis by (intro exI [of _ "Suc k"]) simp
  qed
qed

lemma insertMany_ok:
  assumes "snd (insertMany coll xs) = None"
  shows "fst (insertMany coll xs) = coll @ xs"
  using insertMany_prefix [of xs coll] assms by auto

text \<open>
  C9 (amended). \<open>archiveOldData\<close> selects the live records whose \<open>createdAt\<close> is
  before the cutoff. When their ids are distinct and none of them is already in the archived
  collection, every selected record is copied to the archived collection (the copy marked
  with \<open>archivedAt\<close> and the compression flag and otherwise equal to its source),
  exactly the selected records are deleted from the live collection, and their number is
  returned. Otherwise the insert fails: 0 is returned and the live collection is
  unchanged, but the copies inserted before the failing one stay in the archived collection.
  The token registry is never touched.
\<close>

theorem archiveOldData_effect:
  "let cutoffDate = now - daysOld * 86400000;
       oldData = filter (is_old cutoffDate) (prices d);
       free = (distinct (map doc_id oldData)
               \<and> set (map doc_id oldData) \<inter> set (map doc_id (archived d)) = {});
       n = fst (archiveOldData cfg now daysOld d);
       d' = snd (archiveOldData cfg now daysOld d)
   in tokens d' = tokens d
      \<and> (free \<longrightarrow> n = length oldData
                  \<and> archived d' = archived d @ map (archive_copy cfg now) oldData
                  \<and> prices d' = filter (\<lambda>x. \<not> is_old cutoffDate x) (prices d))
      \<and> (\<not> free \<longrightarrow> n = 0 \<and> prices d' = prices d
                  \<and> (\<exists>k < length oldData.
                        archived d' = archived d @ map (archive_copy cfg now) (take k oldData)))"
proof -
  define cutoffDate where "cutoffDate = now - daysOld * 86400000"
  define oldData where "oldData = filter (is_old cutoffDate) (prices d)"
  define copies where "copies = map (archive_copy cfg now) oldData"
  define free where "free \<longleftrightarrow> distinct (map doc_id oldData)
               \<and> set (map doc_id oldData) \<inter> set (map doc_id (archived d)) = {}"
  have ids: "map doc_id copies = map doc_id oldData"
    unfolding copies_def by (simp add: archive_copy_def)
  have ok: "snd (insertMany (archived d) copies) = None \<longleftrightarrow> free"
    unfolding insertMany_ok_iff free_def ids by (rule refl)
  have run: "archiveOldData cfg now daysOld d =
      (if length oldData > 0
       then (case insertMany (archived d) copies of
               (arch, Some e) \<Rightarrow> (0, d \<lparr> archived := arch \<rparr>)
             | (arch, None) \<Rightarrow>
                 (length oldData,
                  d \<lparr> archived := arch,
                      prices := filter (\<lambda>x. \<not> is_old cutoffDate x) (prices d) \<rparr>))
       else (length oldData, d))"
    unfolding archiveOldData_def Let_def copies_def oldData_def cutoffDate_def by simp
  have tok: "tokens (snd (archiveOldData cfg now daysOld d)) = tokens d"
    unfolding run by (simp split: prod.split option.split)
  have good: "fst (archiveOldData cfg now daysOld d) = length oldData
      \<and> archived (snd (archiveOldData cfg now daysOld d)) = archived d @ copies
      \<and> prices (snd (archiveOldData cfg now daysOld d))
          = filter (\<lambda>x. \<not> is_old cutoffDate x) (prices d)" if free
  proof (cases "oldData = []")
    case True
    then have "filter (\<lambda>x. \<not> is_old cutoffDate x) (prices d) = prices d"
      unfolding oldData_def by (simp add: filter_empty_conv)
    with True show ?thesis unfolding run copies_def by simp
  next
    case False
    from that ok have n: "snd (insertMany (archived d) copies) = None" by simp
    from insertMany_ok [OF n] n
    have "insertMany (archived d) copies = (archived d @ copies, None)"
      by (simp add: prod_eq_iff)
    with False show ?thesis unfolding run by simp
  qed
  have bad: "fst (archiveOldData cfg now daysOld d) = 0
      \<and> prices (snd (archiveOldData cfg now daysOld d)) = prices d
      \<and> (\<exists>k < length oldData.
            archived (snd (archiveOldData cfg now daysOld d))
              = archived d @ map (archive_copy cfg now) (take k oldData))" if "\<not> free"
  proof -
    from that have ne: "oldData \<noteq> []" unfolding free_def by auto
    from that ok obtain e where e: "snd (insertMany (archived d) copies) = Some e" by auto
    from insertMany_prefix [of copies "archived d"] e obtain k where
      k: "k < length copies" "fst (insertMany (archived d) copies) = archived d @ take k copies"
      by auto
    from e k have "insertMany (archived d) copies = (archived d @ take k copies, Some e)"
      by (simp add: prod_eq_iff)
    moreover have "take k copies = map (archive_copy cfg now) (take k oldData)"
      unfolding copies_def by (simp add: take_map)
    moreover have "k < length oldData" using k(1) unfolding copies_def by simp
    ultimately show ?thesis
      using ne unfolding run by (intro conjI exI [of _ k]) simp_all
  qed
  show ?thesis
    unfolding Let_def cutoffDate_def [symmetric] oldData_def [symmetric] free_def [symmetric]
    using tok good bad unfolding copies_def
    by (intro conjI impI) simp_all
qed

theorem archiveOldData_effect_witness:
  "fst (archiveOldData default_config sample_now 90 archive_db_ok) = 1
   \<and> archived (snd (archiveOldData default_config sample_now 90 archive_db_ok))
       = [archive_copy default_config sample_now
            (stored_doc token_a ''ethereum'' ''2024-01-01T00:00:00Z'' 10 0)]
   \<and> prices (snd (archiveOldData default_config sample_now 90 archive_db_ok))
       = [stored_doc token_a ''ethereum'' ''2024-01-02T00:00:00Z'' 20 8640000000]"
proof -
  have old: "filter (is_old (sample_now - 90 * 86400000)) (prices archive_db_ok)
               = [stored_doc token_a ''ethereum'' ''2024-01-01T00:00:00Z'' 10 0]"
    by (simp add: archive_db_ok_def is_old_def stored_doc_def sample_now_def)
  have new: "filter (\<lambda>x. \<not> is_old (sample_now - 90 * 86400000) x) (prices archive_db_ok)
               = [stored_doc token_a ''ethereum'' ''2024-01-02T00:00:00Z'' 20 8640000000]"
    by (simp add: archive_db_ok_def is_old_def stored_doc_def sample_now_def)
  have arch: "archived archive_db_ok = []" by (simp add: archive_db_ok_def)
  show ?thesis
    using archiveOldData_effect [where cfg = default_config and now = sample_now and daysOld = 90
        and d = archive_db_ok]
    unfolding Let_def old new arch by simp
qed

text \<open>
  C9 as stated fails: the two steps are not atomic. With two old live records, the second
  of which has an id already archived, the call fails and returns 0, yet the copy of the
  first record has been added to the archived collection.
\<close>

theorem archiveOldData_atomic_counterexample:
  "archiveOldData default_config sample_now 90 archive_db_dup
     = (0, archive_db_dup
             \<lparr> archived := archived archive_db_dup @
                  [archive_copy default_config sample_now
                     (stored_doc token_a ''ethereum'' ''2024-01-01T00:00:00Z'' 10 0)] \<rparr>)
   \<and> archived (snd (archiveOldData default_config sample_now 90 archive_db_dup))
       \<noteq> archived archive_db_dup"
  by (simp add: archiveOldData_def archive_db_dup_def is_old_def stored_doc_def sample_now_def
      archive_copy_def mk_doc_def Let_def)

section \<open>Properties of the resolution pipeline\<close>

lemma calls_log_call: "calls (log_call c w) = calls w @ [c]"
  by (simp add: log_call_def)

lemma calls_setEx: "calls (setEx k t v w) = calls w @ [CacheSet k t]"
  by (simp add: setEx_def log_call_def)

lemma calls_register_token: "\<exists>rest. calls (register_token e tok net w) = calls w @ rest"
  by (simp add: register_token_def Let_def log_call_def split: option.split)

lemma calls_enqueue_missing: "calls (snd (enqueue_missing tok net ts w)) = calls w @ [QueueAdd]"
  by (simp add: enqueue_missing_def log_call_def)

lemma status_enqueue_missing: "status (fst (enqueue_missing tok net ts w)) = 202"
  by (simp add: enqueue_missing_def)

lemma interpolate_step_facts:
  "status (fst (interpolate_step cfg e tok net ts w)) \<noteq> 400
   \<and> (\<exists>rest. calls (snd (interpolate_step cfg e tok net ts w)) = calls w @ rest)"
  by (simp add: interpolate_step_def Let_def calls_setEx calls_log_call calls_enqueue_missing
      status_enqueue_missing server_error_def ok_reply_def
      split: sum.split option.split)

lemma oracle_step_facts:
  "status (fst (oracle_step cfg e tok net ts w)) \<noteq> 400
   \<and> (\<exists>rest. calls (snd (oracle_step cfg e tok net ts w)) = calls w @ rest)"
proof (cases "oracle_price e tok net ts")
  case None
  from interpolate_step_facts [of cfg e tok net ts "log_call (OracleGetPrice tok net ts) w"]
  obtain rest where
    "status (fst (interpolate_step cfg e tok net ts (log_call (OracleGetPrice tok net ts) w))) \<noteq> 400"
    "calls (snd (interpolate_step cfg e tok net ts (log_call (OracleGetPrice tok net ts) w)))
       = calls w @ OracleGetPrice tok net ts # rest"
    by (auto simp: calls_log_call)
  with None show ?thesis by (simp add: oracle_step_def Let_def)
next
  case (Some p)
  show ?thesis
  proof (cases "storeTokenPrice (env_now e) p
      (db (log_call DbStore (setEx (generateCacheKey cfg tok net ts) (ttl_currentPrice cfg) p
            (log_call (OracleGetPrice tok net ts) w))))")
    case (Inl err)
    with Some show ?thesis
      by (simp add: oracle_step_def Let_def server_error_def calls_log_call calls_setEx)
  next
    case (Inr d')
    let ?w3 = "log_call DbStore (setEx (generateCacheKey cfg tok net ts) (ttl_currentPrice cfg) p
            (log_call (OracleGetPrice tok net ts) w))"
    from calls_register_token [of e tok net "?w3 \<lparr> db := d' \<rparr>"] obtain rest where
      "calls (register_token e tok net (?w3 \<lparr> db := d' \<rparr>)) = calls (?w3 \<lparr> db := d' \<rparr>) @ rest"
      by auto
    with Some Inr show ?thesis
      by (simp add: oracle_step_def Let_def ok_reply_def calls_log_call calls_setEx)
  qed
qed

lemma tokenRegex_token_a: "tokenRegex_test token_a"
  by (simp add: tokenRegex_test_def token_a_def)

lemma tokenRegex_token_b: "tokenRegex_test token_b"
  by (simp add: tokenRegex_test_def token_b_def)

lemma lower_token_b: "toLowerCase token_b = token_b"
  by (simp add: toLowerCase_def lower_char_def token_b_def Let_def)

lemma lower_networks:
  "toLowerCase ''ethereum'' = ''ethereum''" "toLowerCase ''polygon'' = ''polygon''"
  "toLowerCase ''bsc'' = ''bsc''"
  by (simp_all add: toLowerCase_def lower_char_def Let_def)

lemma lower_char_E: "lower_char CHR ''E'' = CHR ''e''"
  by code_simp

lemma lower_Ethereum: "toLowerCase ''Ethereum'' = ''ethereum''"
  by (simp add: toLowerCase_def lower_char_E) (simp add: lower_char_def)

lemma default_supported:
  "networks_supported default_config = [''ethereum'', ''polygon'', ''arbitrum'', ''optimism'']"
  by (simp add: default_config_def)

text \<open>
  C8 (amended). A request passes validation exactly when token and network are present,
  the token matches \<open>^0x[0-9a-fA-F]{40}$\<close> and the lower-cased network is in the
  configured list \<open>config.networks.supported\<close>. A request that does not pass is answered
  with status 400, without data, and nothing else happens: the cache, the store, the queue
  and the log of calls are unchanged. A request that passes is never answered with 400, and
  the first call it makes is the cache lookup under its derived key.
\<close>

theorem post_api_tokens_validation:
  "let valid = (truthy tok \<and> truthy net \<and> tokenRegex_test tok
                \<and> List.member (networks_supported cfg) (toLowerCase net));
       r = post_api_tokens cfg e tok net ts w
   in (\<not> valid \<longrightarrow> status (fst r) = 400 \<and> success (fst r) = False \<and> data (fst r) = None
                     \<and> snd r = w)
      \<and> (valid \<longrightarrow> status (fst r) \<noteq> 400
                   \<and> (\<exists>rest. calls (snd r)
                         = calls w @ CacheGet (generateCacheKey cfg tok net ts) # rest))"
proof -
  let ?valid = "truthy tok \<and> truthy net \<and> tokenRegex_test tok
                \<and> List.member (networks_supported cfg) (toLowerCase net)"
  let ?r = "post_api_tokens cfg e tok net ts w"
  let ?key = "generateCacheKey cfg tok net ts"
  have bad: "status (fst ?r) = 400 \<and> success (fst ?r) = False \<and> data (fst ?r) = None \<and> snd ?r = w"
    if "\<not> ?valid"
    using that by (auto simp: post_api_tokens_def bad_request_def)
  have good: "status (fst ?r) \<noteq> 400 \<and> (\<exists>rest. calls (snd ?r) = calls w @ CacheGet ?key # rest)"
    if v: "?valid"
  proof (cases "cache w ?key")
    case (Some hit)
    with v show ?thesis
      by (simp add: post_api_tokens_def Let_def log_call_def ok_reply_def split: prod.split)
  next
    case None
    let ?w2 = "log_call (DbGetPrice tok net ts) (log_call (CacheGet ?key) w)"
    show ?thesis
    proof (cases "getTokenPrice (db w) tok net ts")
      case (Some dbPrice)
      with None v show ?thesis
        by (simp add: post_api_tokens_def Let_def log_call_def setEx_def ok_reply_def)
    next
      case miss: None
      from oracle_step_facts [of cfg e tok net ts ?w2] obtain rest where
        "status (fst (oracle_step cfg e tok net ts ?w2)) \<noteq> 400"
        "calls (snd (oracle_step cfg e tok net ts ?w2))
           = calls w @ CacheGet ?key # DbGetPrice tok net ts # rest"
        by (auto simp: calls_log_call)
      moreover from None miss v have "?r = oracle_step cfg e tok net ts ?w2"
        by (simp add: post_api_tokens_def Let_def log_call_def)
      ultimately show ?thesis by simp
    qed
  qed
  show ?thesis unfolding Let_def using bad good by (intro conjI impI) simp_all
qed

theorem post_api_tokens_validation_witness:
  "status (fst (post_api_tokens default_config sample_env ''0xabc'' ''ethereum'' [] empty_world)) = 400
   \<and> snd (post_api_tokens default_config sample_env ''0xabc'' ''ethereum'' [] empty_world) = empty_world
   \<and> status (fst (post_api_tokens default_config sample_env token_a ''Ethereum'' [] empty_world)) \<noteq> 400"
proof -
  have inv: "\<not> (truthy ''0xabc'' \<and> truthy ''ethereum'' \<and> tokenRegex_test ''0xabc''
        \<and> List.member (networks_supported default_config) (toLowerCase ''ethereum''))"
    by (simp add: tokenRegex_test_def)
  have val: "truthy token_a \<and> truthy ''Ethereum'' \<and> tokenRegex_test token_a
        \<and> List.member (networks_supported default_config) (toLowerCase ''Ethereum'')"
    using tokenRegex_token_a
    by (simp add: lower_Ethereum default_supported truthy_def) (simp add: token_a_def)
  from post_api_tokens_validation
         [where cfg = default_config and e = sample_env and tok = "''0xabc''"
            and net = "''ethereum''" and ts = "[]" and w = empty_world, unfolded Let_def] inv
  have 1: "status (fst (post_api_tokens default_config sample_env ''0xabc'' ''ethereum'' [] empty_world)) = 400
     \<and> snd (post_api_tokens default_config sample_env ''0xabc'' ''ethereum'' [] empty_world) = empty_world"
    by simp
  from post_api_tokens_validation
         [where cfg = default_config and e = sample_env and tok = token_a
            and net = "''Ethereum''" and ts = "[]" and w = empty_world, unfolded Let_def] val
  have 2: "status (fst (post_api_tokens default_config sample_env token_a ''Ethereum'' [] empty_world)) \<noteq> 400"
    by simp
  from 1 2 show ?thesis by simp
qed

text \<open>
  C8 as stated fails under the default configuration, whose supported list is ethereum,
  polygon, arbitrum and optimism: a well-formed token on \<open>bsc\<close>, a network of the
  stated set, is answered with 400.
\<close>

theorem post_api_tokens_bsc_counterexample:
  "tokenRegex_test token_a \<and> List.member spec_supported_networks ''bsc''
   \<and> fst (post_api_tokens default_config sample_env token_a ''bsc'' [] empty_world)
       = bad_request
           ''Unsupported network: bsc. Supported networks are: ethereum, polygon, arbitrum, optimism''
   \<and> status (fst (post_api_tokens default_config sample_env token_a ''bsc'' [] empty_world)) = 400"
proof -
  have t: "truthy token_a" "truthy ''bsc''" by (simp_all add: truthy_def token_a_def)
  have m: "\<not> List.member (networks_supported default_config) (toLowerCase ''bsc'')"
    by (simp add: lower_networks default_supported)
  have j: "join_comma (networks_supported default_config) = ''ethereum, polygon, arbitrum, optimism''"
    by (simp add: default_supported)
  have r: "fst (post_api_tokens default_config sample_env token_a ''bsc'' [] empty_world)
       = bad_request
           ''Unsupported network: bsc. Supported networks are: ethereum, polygon, arbitrum, optimism''"
    using t m tokenRegex_token_a by (simp add: post_api_tokens_def j)
  have s: "List.member spec_supported_networks ''bsc''"
    by (simp add: spec_supported_networks_def)
  from r s tokenRegex_token_a show ?thesis by (simp add: bad_request_def)
qed

lemma post_api_tokens_db_hit:
  assumes "truthy tok" "truthy net" "tokenRegex_test tok"
    and "List.member (networks_supported cfg) (toLowerCase net)"
    and "cache w (generateCacheKey cfg tok net ts) = None"
    and "getTokenPrice (db w) tok net ts = Some dbPrice"
  shows "fst (post_api_tokens cfg e tok net ts w)
           = ok_reply ''Price retrieved from database''
               \<lparr> data_doc = dbPrice, cached = False, fromDB = True, fromAPI = False \<rparr>"
    and "cache (snd (post_api_tokens cfg e tok net ts w))
           = (cache w)(generateCacheKey cfg tok net ts \<mapsto> (ttl_currentPrice cfg, dbPrice))"
    and "db (snd (post_api_tokens cfg e tok net ts w)) = db w"
  using assms by (simp_all add: post_api_tokens_def Let_def log_call_def setEx_def)

text \<open>
  C1, evaluated at the store-hit scenario under the default configuration: the reply is the
  stored record tagged \<open>fromDB\<close> and the cache is filled again under the same derived
  key, but with the TTL of current prices (300 seconds), not the historical-price TTL of
  the "warm" strategy (3600 seconds).
\<close>

theorem post_api_tokens_store_hit_ttl:
  "fst (post_api_tokens default_config sample_env token_b ''polygon'' ''2024-01-01T00:00:00Z''
          store_hit_world)
     = ok_reply ''Price retrieved from database''
         \<lparr> data_doc = stored_doc token_b ''polygon'' ''2024-01-01T00:00:00Z'' (5 / 2) 0,
           cached = False, fromDB = True, fromAPI = False \<rparr>
   \<and> cache (snd (post_api_tokens default_config sample_env token_b ''polygon''
                    ''2024-01-01T00:00:00Z'' store_hit_world))
        (generateCacheKey default_config token_b ''polygon'' ''2024-01-01T00:00:00Z'')
     = Some (300, stored_doc token_b ''polygon'' ''2024-01-01T00:00:00Z'' (5 / 2) 0)
   \<and> ttl_currentPrice default_config = 300
   \<and> ttl_historicalPrice default_config = 3600"
proof -
  have c: "cache store_hit_world
             (generateCacheKey default_config token_b ''polygon'' ''2024-01-01T00:00:00Z'') = None"
    by (simp add: store_hit_world_def empty_world_def)
  have g: "getTokenPrice (db store_hit_world) token_b ''polygon'' ''2024-01-01T00:00:00Z''
             = Some (stored_doc token_b ''polygon'' ''2024-01-01T00:00:00Z'' (5 / 2) 0)"
    by (simp add: store_hit_world_def empty_world_def empty_db_def getTokenPrice_def truthy_def
        lower_token_b stored_doc_def mk_doc_def)
  have v: "truthy token_b" "truthy ''polygon''"
    "List.member (networks_supported default_config) (toLowerCase ''polygon'')"
    by (simp_all add: truthy_def token_b_def lower_networks default_supported)
  have ttl: "ttl_currentPrice default_config = 300" "ttl_historicalPrice default_config = 3600"
    by (simp_all add: default_config_def)
  from post_api_tokens_db_hit [OF v(1,2) tokenRegex_token_b v(3) c g, of sample_env] ttl
  show ?thesis by simp
qed

theorem post_api_tokens_store_hit_ttl_witness:
  "cache (snd (post_api_tokens default_config sample_env token_b ''polygon''
                 ''2024-01-01T00:00:00Z'' store_hit_world))
     (generateCacheKey default_config token_b ''polygon'' ''2024-01-01T00:00:00Z'')
   \<noteq> Some (ttl_historicalPrice default_config,
             stored_doc token_b ''polygon'' ''2024-01-01T00:00:00Z'' (5 / 2) 0)"
  using post_api_tokens_store_hit_ttl by simp

section \<open>Properties of the queue workers\<close>


lemma db_log_call: "db (log_call c w) = db w"
  by (simp add: log_call_def)

lemma cache_log_call: "cache (log_call c w) = cache w"
  by (simp add: log_call_def)























lemma always_found_run:
  "getTokenPriceWithRetry default_config always_found (alchemy_maxRetries default_config)
     = (Inr (Some (mk_doc token_a ''ethereum'' ''2024-01-01T00:00:00Z'' 12)), [Attempt 1])"
  unfolding getTokenPriceWithRetry_def default_maxRetries
  by (rule retry_from_found) (simp_all add: always_found_def)








text \<open>
  The price-processing worker makes no check of the store at all: with the record of its
  payload already stored it calls the provider, writes the cache and replaces the stored
  record.
\<close>

theorem priceProcessingWorker_no_check:
  "getTokenPrice (db worker_world) (job_token worker_job) (job_network worker_job)
     (job_timestamp worker_job)
     = Some (stored_doc token_a ''ethereum'' ''2024-01-01T00:00:00Z'' 10 0)
   \<and> fst (priceProcessingWorker default_config sample_env always_found worker_job worker_world)
     = Inr (JobPrice (mk_doc token_a ''ethereum'' ''2024-01-01T00:00:00Z'' 12) False)
   \<and> calls (snd (priceProcessingWorker default_config sample_env always_found worker_job
                    worker_world))
     = [OracleGetPrice token_a ''ethereum'' ''2024-01-01T00:00:00Z'',
        CacheSet (generateCacheKey default_config token_a ''ethereum'' ''2024-01-01T00:00:00Z'') 300,
        DbStore, DbGetAllTokens, OracleCreationDate token_a ''ethereum'']
   \<and> prices (db (snd (priceProcessingWorker default_config sample_env always_found worker_job
                         worker_world)))
     = [(mk_doc token_a ''ethereum'' ''2024-01-01T00:00:00Z'' 12)
          \<lparr> storedAt := Some (env_now sample_env),
            doc_id := token_a @ ''_ethereum_2024-01-01T00:00:00Z'' \<rparr>]"
proof -
  let ?p = "mk_doc token_a ''ethereum'' ''2024-01-01T00:00:00Z'' 12"
  let ?key = "generateCacheKey default_config token_a ''ethereum'' ''2024-01-01T00:00:00Z''"
  have g: "getTokenPrice (db worker_world) (job_token worker_job) (job_network worker_job)
     (job_timestamp worker_job)
     = Some (stored_doc token_a ''ethereum'' ''2024-01-01T00:00:00Z'' 10 0)"
    by (simp add: worker_world_def worker_job_def empty_world_def empty_db_def getTokenPrice_def
        truthy_def lower_token_a stored_doc_def mk_doc_def)
  have st: "storeTokenPrice (env_now sample_env) ?p (db worker_world)
      = Inr ((db worker_world) \<lparr> prices :=
          [?p \<lparr> storedAt := Some (env_now sample_env),
                doc_id := token_a @ ''_ethereum_2024-01-01T00:00:00Z'' \<rparr>] \<rparr>)"
    by (simp add: storeTokenPrice_def replaceOne_upsert_def worker_world_def empty_world_def
        empty_db_def stored_doc_def mk_doc_def truthy_def same_key_def Let_def)
  have toks: "tokens (db worker_world) = []"
    by (simp add: worker_world_def empty_world_def empty_db_def)
  have run: "priceProcessingWorker default_config sample_env always_found worker_job worker_world
    = (Inr (JobPrice ?p False),
       register_token sample_env token_a ''ethereum''
         ((log_call DbStore (setEx ?key (ttl_currentPrice default_config) ?p
            (worker_world \<lparr> calls := calls worker_world
                @ [OracleGetPrice token_a ''ethereum'' ''2024-01-01T00:00:00Z''] \<rparr>)))
           \<lparr> db := (db worker_world) \<lparr> prices :=
               [?p \<lparr> storedAt := Some (env_now sample_env),
                     doc_id := token_a @ ''_ethereum_2024-01-01T00:00:00Z'' \<rparr>] \<rparr> \<rparr>))"
    unfolding priceProcessingWorker_def always_found_run Let_def
    by (simp add: worker_job_def event_op_def st db_log_call setEx_def)
  have ttl: "ttl_currentPrice default_config = 300" by (simp add: default_config_def)
  have cw: "calls worker_world = []" by (simp add: worker_world_def empty_world_def)
  show ?thesis
    unfolding run
    using g
    by (simp add: register_token_def getAllTokens_def toks Let_def log_call_def setEx_def
        sample_env_def truthy_def ttl cw)
qed

end
